theory Spec2Isabelle
  imports Main "HOL-Library.Word"
begin

unbundle bit_operations_syntax

section \<open>JavaScript values\<close>

text \<open>
  The server in \<^verbatim>\<open>src/index.ts\<close> receives the arguments of a tool call as an untyped value
  (\<^verbatim>\<open>arguments?: unknown\<close>) and inspects it with \<^verbatim>\<open>typeof\<close>, \<^verbatim>\<open>in\<close>, \<^verbatim>\<open>Array.isArray\<close>,
  truthiness tests and property reads. Values are therefore modelled as they exist at run time:
  the JSON values plus \<^verbatim>\<open>undefined\<close>. An object is the list of its own properties in insertion
  order; a property list is read with \<open>map_of\<close>, so the first binding of a name is the property.
  Strings are lists of 8-bit characters, read as the code units 0 to 255. Numbers are modelled
  as integers: the program observes a number only through \<^verbatim>\<open>typeof\<close> and truthiness.
\<close>

datatype jsval =
    JUndefined
  | JNull
  | JBool bool
  | JNum int
  | JStr string
  | JArr "jsval list"
  | JObj "(string \<times> jsval) list"

fun typeof :: "jsval \<Rightarrow> string" where
  "typeof JUndefined = ''undefined''"
| "typeof JNull = ''object''"
| "typeof (JBool b) = ''boolean''"
| "typeof (JNum n) = ''number''"
| "typeof (JStr s) = ''string''"
| "typeof (JArr xs) = ''object''"
| "typeof (JObj kvs) = ''object''"

text \<open>ToBoolean: what \<^verbatim>\<open>!x\<close>, \<^verbatim>\<open>x ? a : b\<close>, \<^verbatim>\<open>x || y\<close> and \<^verbatim>\<open>if (x)\<close> test.\<close>

fun truthy :: "jsval \<Rightarrow> bool" where
  "truthy JUndefined = False"
| "truthy JNull = False"
| "truthy (JBool b) = b"
| "truthy (JNum n) = (n \<noteq> 0)"
| "truthy (JStr s) = (s \<noteq> [])"
| "truthy (JArr xs) = True"
| "truthy (JObj kvs) = True"

fun Array_isArray :: "jsval \<Rightarrow> bool" where
  "Array_isArray (JArr xs) = True"
| "Array_isArray v = False"

text \<open>\<^verbatim>\<open>a || b\<close> on values: the first operand when it is truthy, the second otherwise.\<close>

definition or_js :: "jsval \<Rightarrow> jsval \<Rightarrow> jsval" where
  "or_js a b = (if truthy a then a else b)"

subsection \<open>Rendering values as text\<close>

fun digit_char :: "nat \<Rightarrow> char" where
  "digit_char n = char_of (48 + n)"

fun nat_digits :: "nat \<Rightarrow> string" where
  "nat_digits n =
     (if n < 10 then [digit_char n] else nat_digits (n div 10) @ [digit_char (n mod 10)])"

declare nat_digits.simps [simp del]

definition Number_toString :: "int \<Rightarrow> string" where
  "Number_toString i = (if i < 0 then CHR ''-'' # nat_digits (nat (- i)) else nat_digits (nat i))"

fun join :: "string \<Rightarrow> string list \<Rightarrow> string" where
  "join sep [] = []"
| "join sep [x] = x"
| "join sep (x # y # ys) = x @ sep @ join sep (y # ys)"

fun ToString :: "jsval \<Rightarrow> string" where
  "ToString JUndefined = ''undefined''"
| "ToString JNull = ''null''"
| "ToString (JBool b) = (if b then ''true'' else ''false'')"
| "ToString (JNum n) = Number_toString n"
| "ToString (JStr s) = s"
| "ToString (JArr xs) =
     join '','' (map (\<lambda>x. if x = JUndefined \<or> x = JNull then [] else ToString x) xs)"
| "ToString (JObj kvs) = ''[object Object]''"

text \<open>
  \<^verbatim>\<open>JSON.stringify\<close>, after the ECMAScript operations QuoteJSONString and
  SerializeJSONProperty. The result is \<open>None\<close> where JavaScript returns \<^verbatim>\<open>undefined\<close>:
  a property whose value is \<^verbatim>\<open>undefined\<close> is left out of an object and is \<^verbatim>\<open>null\<close> in an
  array. \<open>gap\<close> is the indentation unit (empty for the one-argument call) and \<open>indent\<close>
  the current indentation.
\<close>

definition hex_digit :: "nat \<Rightarrow> char" where
  "hex_digit n = (if n < 10 then char_of (48 + n) else char_of (87 + n))"

definition quote_char :: "char \<Rightarrow> string" where
  "quote_char ch =
     (let n = (of_char ch :: nat) in
      if ch = CHR 0x22 then [CHR 0x5C, CHR 0x22]
      else if ch = CHR 0x5C then [CHR 0x5C, CHR 0x5C]
      else if n = 8 then [CHR 0x5C, CHR ''b'']
      else if n = 12 then [CHR 0x5C, CHR ''f'']
      else if n = 10 then [CHR 0x5C, CHR ''n'']
      else if n = 13 then [CHR 0x5C, CHR ''r'']
      else if n = 9 then [CHR 0x5C, CHR ''t'']
      else if n < 32
      then [CHR 0x5C, CHR ''u'', CHR ''0'', CHR ''0'', hex_digit (n div 16), hex_digit (n mod 16)]
      else [ch])"

definition QuoteJSONString :: "string \<Rightarrow> string" where
  "QuoteJSONString s = [CHR 0x22] @ concat (map quote_char s) @ [CHR 0x22]"

fun SerializeJSONProperty :: "string \<Rightarrow> string \<Rightarrow> jsval \<Rightarrow> string option" where
  "SerializeJSONProperty gap indent JUndefined = None"
| "SerializeJSONProperty gap indent JNull = Some ''null''"
| "SerializeJSONProperty gap indent (JBool b) = Some (if b then ''true'' else ''false'')"
| "SerializeJSONProperty gap indent (JNum i) = Some (Number_toString i)"
| "SerializeJSONProperty gap indent (JStr s) = Some (QuoteJSONString s)"
| "SerializeJSONProperty gap indent (JArr xs) =
     (let stepback = indent; indent = indent @ gap;
          partial = map (\<lambda>x. case SerializeJSONProperty gap indent x of
                                None \<Rightarrow> ''null'' | Some s \<Rightarrow> s) xs
      in Some (if partial = [] then ''[]''
               else if gap = [] then ''['' @ join '','' partial @ '']''
               else ''['' @ [CHR 0x0A] @ indent @ join ('','' @ [CHR 0x0A] @ indent) partial
                      @ [CHR 0x0A] @ stepback @ '']''))"
| "SerializeJSONProperty gap indent (JObj kvs) =
     (let stepback = indent; indent = indent @ gap;
          partial = concat (map (\<lambda>kv. case SerializeJSONProperty gap indent (snd kv) of
                       None \<Rightarrow> []
                     | Some s \<Rightarrow> [QuoteJSONString (fst kv) @ '':''
                                    @ (if gap = [] then [] else '' '') @ s]) kvs)
      in Some (if partial = [] then ''{}''
               else if gap = [] then ''{'' @ join '','' partial @ ''}''
               else ''{'' @ [CHR 0x0A] @ indent @ join ('','' @ [CHR 0x0A] @ indent) partial
                      @ [CHR 0x0A] @ stepback @ ''}''))"

definition JSON_stringify :: "jsval \<Rightarrow> string option" where
  "JSON_stringify v = SerializeJSONProperty [] [] v"

definition JSON_stringify_indent :: "jsval \<Rightarrow> nat \<Rightarrow> string option" where
  "JSON_stringify_indent v n = SerializeJSONProperty (replicate (min n 10) CHR '' '') [] v"

text \<open>A value placed in a template literal: \<^verbatim>\<open>undefined\<close> is rendered by its name.\<close>

fun interpolate :: "string option \<Rightarrow> string" where
  "interpolate None = ''undefined''"
| "interpolate (Some s) = s"

subsection \<open>Exceptions, property access and operators that can raise\<close>

text \<open>
  Every exception the program can meet is an \<^verbatim>\<open>Error\<close> object with a message: the errors
  it throws itself, the \<^verbatim>\<open>TypeError\<close> of the language, the \<^verbatim>\<open>DataError\<close> of the Web
  Crypto API and the error of the HTTP client. The wording of the \<^verbatim>\<open>TypeError\<close> messages
  follows V8.
\<close>

datatype exn = Error string | TypeError string | DataError string | AxiosError string

fun message :: "exn \<Rightarrow> string" where
  "message (Error m) = m"
| "message (TypeError m) = m"
| "message (DataError m) = m"
| "message (AxiosError m) = m"

definition quoted :: "string \<Rightarrow> string" where
  "quoted s = [CHR 0x27] @ s @ [CHR 0x27]"

text \<open>
  Property read \<^verbatim>\<open>v.k\<close> and the operator \<^verbatim>\<open>k in v\<close>, for the names the program uses
  (\<^verbatim>\<open>callIds\<close>, \<^verbatim>\<open>fromDateTime\<close>, \<^verbatim>\<open>toDateTime\<close>, \<^verbatim>\<open>primaryUserIds\<close>, \<^verbatim>\<open>context\<close>,
  \<^verbatim>\<open>cursor\<close>): none of them is an array index or a property of a built-in prototype, so
  only an object's own properties answer. Reading a property of \<^verbatim>\<open>undefined\<close> or \<^verbatim>\<open>null\<close>
  raises, and so does \<^verbatim>\<open>in\<close> on anything that is not an object.
\<close>

fun get_property :: "jsval \<Rightarrow> string \<Rightarrow> jsval" where
  "get_property (JObj kvs) k = (case map_of kvs k of None \<Rightarrow> JUndefined | Some v \<Rightarrow> v)"
| "get_property v k = JUndefined"

definition member_access :: "jsval \<Rightarrow> string \<Rightarrow> exn + jsval" where
  "member_access v k =
     (if v = JUndefined \<or> v = JNull
      then Inl (TypeError (''Cannot read properties of '' @ ToString v @ '' (reading ''
                             @ quoted k @ '')''))
      else Inr (get_property v k))"

fun op_in :: "string \<Rightarrow> jsval \<Rightarrow> exn + bool" where
  "op_in k (JObj kvs) = Inr (map_of kvs k \<noteq> None)"
| "op_in k (JArr xs) = Inr False"
| "op_in k v =
     Inl (TypeError (''Cannot use '' @ quoted ''in'' @ '' operator to search for '' @ quoted k
                       @ '' in '' @ ToString v))"

text \<open>\<^verbatim>\<open>v.every(p)\<close>: only an array has the method.\<close>

fun every :: "jsval \<Rightarrow> (jsval \<Rightarrow> bool) \<Rightarrow> exn + bool" where
  "every (JArr xs) p = Inr (list_all p xs)"
| "every v p =
     Inl (TypeError (if v = JUndefined \<or> v = JNull
                     then ''Cannot read properties of '' @ ToString v @ '' (reading ''
                            @ quoted ''every'' @ '')''
                     else ''every is not a function''))"

text \<open>
  The short-circuit operators \<^verbatim>\<open>&&\<close> and \<^verbatim>\<open>||\<close> and the negation \<^verbatim>\<open>!\<close> on boolean
  operands that may raise: the right operand counts only when the left one returned and did
  not decide the result.
\<close>

fun and_also :: "exn + bool \<Rightarrow> exn + bool \<Rightarrow> exn + bool" where
  "and_also (Inr True) b = b"
| "and_also a b = a"

fun or_else :: "exn + bool \<Rightarrow> exn + bool \<Rightarrow> exn + bool" where
  "or_else (Inr False) b = b"
| "or_else a b = a"

fun negate :: "exn + bool \<Rightarrow> exn + bool" where
  "negate (Inr b) = Inr (\<not> b)"
| "negate (Inl e) = Inl e"

fun bindE :: "exn + 'a \<Rightarrow> ('a \<Rightarrow> exn + 'b) \<Rightarrow> exn + 'b" where
  "bindE (Inl e) f = Inl e"
| "bindE (Inr x) f = f x"

text \<open>Property write \<^verbatim>\<open>o.k = v\<close> on an object: a new name goes last.\<close>

fun set_prop :: "jsval \<Rightarrow> string \<Rightarrow> jsval \<Rightarrow> jsval" where
  "set_prop (JObj kvs) k v =
     (if map_of kvs k = None then JObj (kvs @ [(k, v)])
      else JObj (map (\<lambda>kv. if fst kv = k then (k, v) else kv) kvs))"
| "set_prop x k v = x"

section \<open>Encodings and the keyed hash\<close>

text \<open>
  \<^verbatim>\<open>TextEncoder.encode\<close> and \<^verbatim>\<open>Buffer.from\<close> turn a string into its UTF-8 bytes: one byte
  below 128, two bytes for the code units 128 to 255.
\<close>

type_synonym byte = "8 word"

definition TextEncoder_encode :: "string \<Rightarrow> byte list" where
  "TextEncoder_encode s =
     concat (map (\<lambda>ch. let n = (of_char ch :: nat) in
                    if n < 128 then [of_nat n]
                    else [of_nat (192 + n div 64), of_nat (128 + n mod 64)]) s)"

text \<open>
  Base64 with the standard alphabet and \<^verbatim>\<open>=\<close> padding (RFC 4648): three bytes make four
  characters. \<^verbatim>\<open>btoa\<close> encodes the code units of a binary string,
  \<^verbatim>\<open>String.fromCharCode\<close> builds that string from bytes.
\<close>

definition base64_alphabet :: string where
  "base64_alphabet = ''ABCDEFGHIJKLMNOPQRSTUVWXYZabcdefghijklmnopqrstuvwxyz0123456789+/''"

definition sextet :: "32 word \<Rightarrow> char" where
  "sextet n = base64_alphabet ! unat (n AND 63)"

definition triple :: "byte \<Rightarrow> byte \<Rightarrow> byte \<Rightarrow> 32 word" where
  "triple a b c = push_bit 16 (ucast a) OR push_bit 8 (ucast b) OR ucast c"

fun base64 :: "byte list \<Rightarrow> string" where
  "base64 [] = []"
| "base64 [a] =
     (let n = triple a 0 0
      in [sextet (drop_bit 18 n), sextet (drop_bit 12 n), CHR ''='', CHR ''=''])"
| "base64 [a, b] =
     (let n = triple a b 0
      in [sextet (drop_bit 18 n), sextet (drop_bit 12 n), sextet (drop_bit 6 n), CHR ''=''])"
| "base64 (a # b # c # rest) =
     (let n = triple a b c
      in [sextet (drop_bit 18 n), sextet (drop_bit 12 n), sextet (drop_bit 6 n), sextet n]
         @ base64 rest)"

definition String_fromCharCode :: "byte list \<Rightarrow> string" where
  "String_fromCharCode bs = map (\<lambda>b. char_of (unat b)) bs"

definition btoa :: "string \<Rightarrow> string" where
  "btoa s = base64 (map (\<lambda>ch. of_nat (of_char ch)) s)"

definition Buffer_base64 :: "string \<Rightarrow> string" where
  "Buffer_base64 s = base64 (TextEncoder_encode s)"

text \<open>
  SHA-256 (FIPS 180-4) on byte strings: the message is padded to whole 64-byte blocks, each
  block is expanded to 64 words and folded into the eight-word state in 64 rounds. The round
  constants and the initial state are written in decimal.
\<close>

type_synonym w32 = "32 word"

definition rotr :: "nat \<Rightarrow> w32 \<Rightarrow> w32" where
  "rotr n x = drop_bit n x OR push_bit (32 - n) x"

definition Ch :: "w32 \<Rightarrow> w32 \<Rightarrow> w32 \<Rightarrow> w32" where
  "Ch x y z = (x AND y) XOR (NOT x AND z)"

definition Maj :: "w32 \<Rightarrow> w32 \<Rightarrow> w32 \<Rightarrow> w32" where
  "Maj x y z = (x AND y) XOR (x AND z) XOR (y AND z)"

definition Sigma0 :: "w32 \<Rightarrow> w32" where
  "Sigma0 x = rotr 2 x XOR rotr 13 x XOR rotr 22 x"

definition Sigma1 :: "w32 \<Rightarrow> w32" where
  "Sigma1 x = rotr 6 x XOR rotr 11 x XOR rotr 25 x"

definition sigma0 :: "w32 \<Rightarrow> w32" where
  "sigma0 x = rotr 7 x XOR rotr 18 x XOR drop_bit 3 x"

definition sigma1 :: "w32 \<Rightarrow> w32" where
  "sigma1 x = rotr 17 x XOR rotr 19 x XOR drop_bit 10 x"

definition round_constants :: "w32 list" where
  "round_constants =
     [1116352408, 1899447441, 3049323471, 3921009573, 961987163, 1508970993, 2453635748,
      2870763221, 3624381080, 310598401, 607225278, 1426881987, 1925078388, 2162078206,
      2614888103, 3248222580, 3835390401, 4022224774, 264347078, 604807628, 770255983,
      1249150122, 1555081692, 1996064986, 2554220882, 2821834349, 2952996808, 3210313671,
      3336571891, 3584528711, 113926993, 338241895, 666307205, 773529912, 1294757372,
      1396182291, 1695183700, 1986661051, 2177026350, 2456956037, 2730485921, 2820302411,
      3259730800, 3345764771, 3516065817, 3600352804, 4094571909, 275423344, 430227734,
      506948616, 659060556, 883997877, 958139571, 1322822218, 1537002063, 1747873779,
      1955562222, 2024104815, 2227730452, 2361852424, 2428436474, 2756734187, 3204031479,
      3329325298]"

definition initial_hash :: "w32 list" where
  "initial_hash =
     [1779033703, 3144134277, 1013904242, 2773480762, 1359893119, 2600822924, 528734635,
      1541459225]"

definition be_word :: "byte list \<Rightarrow> w32" where
  "be_word bs = foldl (\<lambda>acc b. push_bit 8 acc OR ucast b) 0 bs"

definition be_bytes :: "nat \<Rightarrow> 'a::len word \<Rightarrow> byte list" where
  "be_bytes k w = map (\<lambda>i. ucast (drop_bit (8 * i) w)) (rev [0..<k])"

function chunks :: "nat \<Rightarrow> 'a list \<Rightarrow> 'a list list" where
  "chunks n xs = (if n = 0 \<or> xs = [] then [] else take n xs # chunks n (drop n xs))"
  by pat_completeness auto
termination
  by (relation "measure (\<lambda>(n, xs). length xs)") auto

definition sha_pad :: "byte list \<Rightarrow> byte list" where
  "sha_pad m =
     m @ [128] @ replicate ((119 - length m mod 64) mod 64) 0
       @ be_bytes 8 (of_nat (8 * length m) :: 64 word)"

fun extend_schedule :: "nat \<Rightarrow> w32 list \<Rightarrow> w32 list" where
  "extend_schedule 0 ws = ws"
| "extend_schedule (Suc k) ws =
     (let t = length ws
      in extend_schedule k
           (ws @ [sigma1 (ws ! (t - 2)) + ws ! (t - 7) + sigma0 (ws ! (t - 15)) + ws ! (t - 16)]))"

definition schedule :: "byte list \<Rightarrow> w32 list" where
  "schedule block = extend_schedule 48 (map be_word (chunks 4 block))"

fun sha_round :: "w32 list \<Rightarrow> w32 \<times> w32 \<Rightarrow> w32 list" where
  "sha_round [a, b, c, d, e, f, g, h] (k, w) =
     (let t1 = h + Sigma1 e + Ch e f g + k + w; t2 = Sigma0 a + Maj a b c
      in [t1 + t2, a, b, c, d + t1, e, f, g])"
| "sha_round st kw = st"

definition compress :: "w32 list \<Rightarrow> byte list \<Rightarrow> w32 list" where
  "compress H block = map2 (+) H (foldl sha_round H (zip round_constants (schedule block)))"

definition sha256 :: "byte list \<Rightarrow> byte list" where
  "sha256 m =
     concat (map (be_bytes 4) (foldl compress initial_hash (chunks 64 (sha_pad m))))"

text \<open>
  HMAC (RFC 2104) with SHA-256: a key longer than a block is hashed first, a shorter one is
  padded with zero bytes to the 64 bytes of a block.
\<close>

definition hmac_sha256 :: "byte list \<Rightarrow> byte list \<Rightarrow> byte list" where
  "hmac_sha256 key msg =
     (let k0 = (if 64 < length key then sha256 key else key);
          k = k0 @ replicate (64 - length k0) 0
      in sha256 (map (\<lambda>b. b XOR 92) k @ sha256 (map (\<lambda>b. b XOR 54) k @ msg)))"

text \<open>
  \<^verbatim>\<open>crypto.subtle.importKey('raw', keyData, {name: 'HMAC', hash: 'SHA-256'}, false, ['sign'])\<close>
  rejects a key of length zero with a \<^verbatim>\<open>DataError\<close>; otherwise the key is the raw bytes, and
  \<^verbatim>\<open>crypto.subtle.sign('HMAC', cryptoKey, messageData)\<close> is the HMAC above.
\<close>

definition importKey_HMAC :: "byte list \<Rightarrow> exn + byte list" where
  "importKey_HMAC keyData =
     (if keyData = [] then Inl (DataError ''Zero-length key is not supported'')
      else Inr keyData)"

definition sign_HMAC :: "byte list \<Rightarrow> byte list \<Rightarrow> byte list" where
  "sign_HMAC cryptoKey messageData = hmac_sha256 cryptoKey messageData"

section \<open>The Gong API client\<close>

text \<open>
  \<^verbatim>\<open>class GongClient\<close> holds the two credentials. \<open>gongClient\<close> is the one client the
  server builds, from the two environment variables: the process leaves at start-up
  (\<open>None\<close>) when \<^verbatim>\<open>GONG_ACCESS_KEY\<close> or \<^verbatim>\<open>GONG_ACCESS_SECRET\<close> is missing or empty.
\<close>

record GongClient =
  accessKey :: string
  accessSecret :: string

definition gongClient :: "string option \<Rightarrow> string option \<Rightarrow> GongClient option" where
  "gongClient GONG_ACCESS_KEY GONG_ACCESS_SECRET =
     (case (GONG_ACCESS_KEY, GONG_ACCESS_SECRET) of
        (Some k, Some s) \<Rightarrow>
          if k = [] \<or> s = [] then None else Some \<lparr> accessKey = k, accessSecret = s \<rparr>
      | _ \<Rightarrow> None)"

text \<open>
  The world outside the process: the clock that \<^verbatim>\<open>new Date().toISOString()\<close> reads, the
  remote end that answers a request with data or makes the HTTP client throw, and the log of
  the requests that went out. A network call is one more entry of \<open>sent\<close>.
\<close>

record http_request =
  req_method :: string
  req_url :: string
  req_params :: jsval
  req_data :: jsval
  req_headers :: "(string \<times> string) list"

record world =
  clock :: string
  respond :: "http_request \<Rightarrow> exn + jsval"
  sent :: "http_request list"

definition axios :: "http_request \<Rightarrow> world \<Rightarrow> (exn + jsval) \<times> world" where
  "axios req w = (respond w req, w\<lparr> sent := sent w @ [req] \<rparr>)"

definition GONG_API_URL :: string where
  "GONG_API_URL = ''https://api.gong.io/v2''"

text \<open>
  \<^verbatim>\<open>generateSignature\<close>: the template literal that builds \<^verbatim>\<open>stringToSign\<close>, then the
  import of the secret as an HMAC key, the signing and the base64 encoding.
\<close>

definition stringToSign :: "string \<Rightarrow> string \<Rightarrow> string \<Rightarrow> jsval \<Rightarrow> string" where
  "stringToSign method path timestamp params =
     method @ [CHR 0x0A] @ path @ [CHR 0x0A] @ timestamp @ [CHR 0x0A]
       @ (if truthy params then interpolate (JSON_stringify params) else [])"

definition generateSignature ::
  "GongClient \<Rightarrow> string \<Rightarrow> string \<Rightarrow> string \<Rightarrow> jsval \<Rightarrow> exn + string" where
  "generateSignature c method path timestamp params =
     (let keyData = TextEncoder_encode (accessSecret c);
          messageData = TextEncoder_encode (stringToSign method path timestamp params)
      in case importKey_HMAC keyData of
           Inl e \<Rightarrow> Inl e
         | Inr cryptoKey \<Rightarrow>
             Inr (btoa (String_fromCharCode (sign_HMAC cryptoKey messageData))))"

text \<open>
  \<^verbatim>\<open>request\<close>: reads the clock, signs \<^verbatim>\<open>data || params\<close> and hands the request to the HTTP
  client. An absent \<^verbatim>\<open>params\<close> or \<^verbatim>\<open>data\<close> is \<^verbatim>\<open>undefined\<close>.
\<close>

definition request ::
  "GongClient \<Rightarrow> string \<Rightarrow> string \<Rightarrow> jsval \<Rightarrow> jsval \<Rightarrow> world \<Rightarrow> (exn + jsval) \<times> world" where
  "request c method path params data w =
     (let timestamp = clock w;
          url = GONG_API_URL @ path
      in case generateSignature c method path timestamp (or_js data params) of
           Inl e \<Rightarrow> (Inl e, w)
         | Inr signature \<Rightarrow>
             axios \<lparr> req_method = method, req_url = url, req_params = params, req_data = data,
                     req_headers =
                       [(''Content-Type'', ''application/json''),
                        (''Authorization'',
                           ''Basic '' @ Buffer_base64 (accessKey c @ '':'' @ accessSecret c)),
                        (''X-Gong-AccessKey'', accessKey c),
                        (''X-Gong-Timestamp'', timestamp),
                        (''X-Gong-Signature'', signature)] \<rparr> w)"

definition listCalls ::
  "GongClient \<Rightarrow> jsval \<Rightarrow> jsval \<Rightarrow> world \<Rightarrow> (exn + jsval) \<times> world" where
  "listCalls c fromDateTime toDateTime w =
     (let params = JObj [];
          params = (if truthy fromDateTime then set_prop params ''fromDateTime'' fromDateTime
                    else params);
          params = (if truthy toDateTime then set_prop params ''toDateTime'' toDateTime
                    else params)
      in request c ''GET'' ''/calls'' params JUndefined w)"

definition retrieveTranscripts ::
  "GongClient \<Rightarrow> jsval \<Rightarrow> world \<Rightarrow> (exn + jsval) \<times> world" where
  "retrieveTranscripts c callIds w =
     request c ''POST'' ''/calls/transcript'' JUndefined
       (JObj [(''filter'',
               JObj [(''callIds'', callIds),
                     (''includeEntities'', JBool True),
                     (''includeInteractionsSummary'', JBool True),
                     (''includeTrackers'', JBool True)])]) w"

text \<open>
  \<^verbatim>\<open>retrieveCallDetails\<close>. The first thing evaluated is \<^verbatim>\<open>args.callIds\<close>, which raises
  when \<^verbatim>\<open>args\<close> is \<^verbatim>\<open>undefined\<close> or \<^verbatim>\<open>null\<close>; after it no property read can raise.
\<close>

definition retrieveCallDetails ::
  "GongClient \<Rightarrow> jsval \<Rightarrow> world \<Rightarrow> (exn + jsval) \<times> world" where
  "retrieveCallDetails c args w =
     (case member_access args ''callIds'' of
        Inl e \<Rightarrow> (Inl e, w)
      | Inr callIds \<Rightarrow>
          if \<not> truthy callIds \<and> \<not> truthy (get_property args ''fromDateTime'')
             \<and> \<not> truthy (get_property args ''toDateTime'')
             \<and> \<not> truthy (get_property args ''primaryUserIds'')
          then (Inl (Error ''At least one filter parameter is required''), w)
          else
            (let filter = JObj [];
                 filter = (if truthy (get_property args ''callIds'')
                           then set_prop filter ''callIds'' (get_property args ''callIds'')
                           else filter);
                 filter = (if truthy (get_property args ''fromDateTime'')
                           then set_prop filter ''fromDateTime'' (get_property args ''fromDateTime'')
                           else filter);
                 filter = (if truthy (get_property args ''toDateTime'')
                           then set_prop filter ''toDateTime'' (get_property args ''toDateTime'')
                           else filter);
                 filter = (if truthy (get_property args ''primaryUserIds'')
                           then set_prop filter ''primaryUserIds''
                                  (get_property args ''primaryUserIds'')
                           else filter);
                 filter = (if truthy (get_property args ''cursor'')
                           then set_prop filter ''cursor'' (get_property args ''cursor'')
                           else filter)
             in request c ''POST'' ''/calls/extensive'' JUndefined
                  (JObj [(''filter'', filter),
                         (''contentSelector'',
                          JObj [(''context'',
                                 or_js (get_property args ''context'') (JStr ''Extended''))])])
                  w))"

section \<open>Type guards and the tool handler\<close>

text \<open>
  The three type guards, operator by operator. \<open>falsy_or_string\<close> and
  \<open>falsy_or_string_array\<close> are the two shapes of conjunct of
  \<^verbatim>\<open>isGongRetrieveCallDetailsArgs\<close>:
  \<^verbatim>\<open>(!a.k || typeof a.k === "string")\<close> and
  \<^verbatim>\<open>(!a.k || (Array.isArray(a.k) && a.k.every(id => typeof id === "string")))\<close>.
\<close>

definition isGongListCallsArgs :: "jsval \<Rightarrow> exn + bool" where
  "isGongListCallsArgs args =
     and_also (Inr (typeof args = ''object''))
    (and_also (Inr (args \<noteq> JNull))
    (and_also (or_else (negate (op_in ''fromDateTime'' args))
                 (bindE (member_access args ''fromDateTime'')
                    (\<lambda>v. Inr (typeof v = ''string''))))
              (or_else (negate (op_in ''toDateTime'' args))
                 (bindE (member_access args ''toDateTime'')
                    (\<lambda>v. Inr (typeof v = ''string''))))))"

definition isGongRetrieveTranscriptsArgs :: "jsval \<Rightarrow> exn + bool" where
  "isGongRetrieveTranscriptsArgs args =
     and_also (Inr (typeof args = ''object''))
    (and_also (Inr (args \<noteq> JNull))
    (and_also (op_in ''callIds'' args)
    (and_also (bindE (member_access args ''callIds'') (\<lambda>v. Inr (Array_isArray v)))
              (bindE (member_access args ''callIds'')
                 (\<lambda>v. every v (\<lambda>id. typeof id = ''string''))))))"

definition falsy_or_string :: "jsval \<Rightarrow> string \<Rightarrow> exn + bool" where
  "falsy_or_string a k =
     or_else (bindE (member_access a k) (\<lambda>v. Inr (\<not> truthy v)))
             (bindE (member_access a k) (\<lambda>v. Inr (typeof v = ''string'')))"

definition falsy_or_string_array :: "jsval \<Rightarrow> string \<Rightarrow> exn + bool" where
  "falsy_or_string_array a k =
     or_else (bindE (member_access a k) (\<lambda>v. Inr (\<not> truthy v)))
             (and_also (bindE (member_access a k) (\<lambda>v. Inr (Array_isArray v)))
                       (bindE (member_access a k)
                          (\<lambda>v. every v (\<lambda>id. typeof id = ''string''))))"

definition isGongRetrieveCallDetailsArgs :: "jsval \<Rightarrow> exn + bool" where
  "isGongRetrieveCallDetailsArgs args =
     (if typeof args \<noteq> ''object'' \<or> args = JNull then Inr False
      else and_also (falsy_or_string_array args ''callIds'')
          (and_also (falsy_or_string args ''fromDateTime'')
          (and_also (falsy_or_string args ''toDateTime'')
          (and_also (falsy_or_string_array args ''primaryUserIds'')
          (and_also (falsy_or_string args ''context'')
                    (falsy_or_string args ''cursor''))))))"

text \<open>
  The result of a tool call, \<^verbatim>\<open>{content: [{type: "text", text}], isError}\<close>. The text is
  \<open>None\<close> where \<^verbatim>\<open>JSON.stringify\<close> returned \<^verbatim>\<open>undefined\<close>.
\<close>

record tool_result =
  content_type :: string
  content_text :: "string option"
  isError :: bool

definition text_result :: "string option \<Rightarrow> bool \<Rightarrow> tool_result" where
  "text_result t e = \<lparr> content_type = ''text'', content_text = t, isError = e \<rparr>"

text \<open>
  The handler of \<^verbatim>\<open>CallToolRequestSchema\<close>. \<open>call_tool\<close> is the body of its \<^verbatim>\<open>try\<close>
  block, which returns a result or throws; \<open>CallToolRequest_handler\<close> adds the
  \<^verbatim>\<open>catch\<close>, which turns what was thrown into a result.
\<close>

definition call_tool ::
  "GongClient \<Rightarrow> string \<Rightarrow> jsval \<Rightarrow> world \<Rightarrow> (exn + tool_result) \<times> world" where
  "call_tool c name args w =
     (if \<not> truthy args then (Inl (Error ''No arguments provided''), w)
      else if name = ''list_calls'' then
        (case isGongListCallsArgs args of
           Inl e \<Rightarrow> (Inl e, w)
         | Inr ok \<Rightarrow>
             if \<not> ok then (Inl (Error ''Invalid arguments for list_calls''), w)
             else (case listCalls c (get_property args ''fromDateTime'')
                          (get_property args ''toDateTime'') w of
                     (Inl e, w') \<Rightarrow> (Inl e, w')
                   | (Inr response, w') \<Rightarrow>
                       (Inr (text_result (JSON_stringify_indent response 2) False), w')))
      else if name = ''retrieve_transcripts'' then
        (case isGongRetrieveTranscriptsArgs args of
           Inl e \<Rightarrow> (Inl e, w)
         | Inr ok \<Rightarrow>
             if \<not> ok then (Inl (Error ''Invalid arguments for retrieve_transcripts''), w)
             else (case retrieveTranscripts c (get_property args ''callIds'') w of
                     (Inl e, w') \<Rightarrow> (Inl e, w')
                   | (Inr response, w') \<Rightarrow>
                       (Inr (text_result (JSON_stringify_indent response 2) False), w')))
      else if name = ''retrieve_call_details'' then
        (case isGongRetrieveCallDetailsArgs args of
           Inl e \<Rightarrow> (Inl e, w)
         | Inr ok \<Rightarrow>
             if \<not> ok then (Inl (Error ''Invalid arguments for retrieve_call_details''), w)
             else (case retrieveCallDetails c args w of
                     (Inl e, w') \<Rightarrow> (Inl e, w')
                   | (Inr response, w') \<Rightarrow>
                       (Inr (text_result (JSON_stringify_indent response 2) False), w')))
      else (Inr (text_result (Some (''Unknown tool: '' @ name)) True), w))"

definition CallToolRequest_handler ::
  "GongClient \<Rightarrow> string \<Rightarrow> jsval \<Rightarrow> world \<Rightarrow> tool_result \<times> world" where
  "CallToolRequest_handler c name args w =
     (case call_tool c name args w of
        (Inl error, w') \<Rightarrow> (text_result (Some (''Error: '' @ message error)) True, w')
      | (Inr result, w') \<Rightarrow> (result, w'))"

section \<open>What the specification says, and fixtures\<close>

text \<open>
  The canonical string and the signature in the words of the specification (section 4.1):
  method, path, timestamp and the JSON-serialized payload, or the empty string when the
  payload is absent, separated by single newlines; then HMAC with SHA-256 keyed with the
  access secret, and standard base64 with padding. An absent payload is \<^verbatim>\<open>undefined\<close>, the
  one value \<^verbatim>\<open>JSON.stringify\<close> does not serialize.
\<close>

definition canonical_string :: "string \<Rightarrow> string \<Rightarrow> string \<Rightarrow> jsval \<Rightarrow> string" where
  "canonical_string method path timestamp payload =
     method @ [CHR 0x0A] @ path @ [CHR 0x0A] @ timestamp @ [CHR 0x0A]
       @ (case JSON_stringify payload of None \<Rightarrow> [] | Some json \<Rightarrow> json)"

definition signature_spec :: "string \<Rightarrow> string \<Rightarrow> string \<Rightarrow> string \<Rightarrow> jsval \<Rightarrow> string" where
  "signature_spec secret method path timestamp payload =
     base64 (hmac_sha256 (TextEncoder_encode secret)
               (TextEncoder_encode (canonical_string method path timestamp payload)))"

text \<open>
  The retrieve-transcripts contract in the words of the specification (section 4.3): a
  non-null object containing a \<^verbatim>\<open>callIds\<close> field that is an array whose every element is a
  string.
\<close>

fun all_strings :: "jsval list \<Rightarrow> bool" where
  "all_strings [] = True"
| "all_strings (JStr s # xs) = all_strings xs"
| "all_strings (x # xs) = False"

fun transcripts_args_spec :: "jsval \<Rightarrow> bool" where
  "transcripts_args_spec (JObj kvs) =
     (case map_of kvs ''callIds'' of Some (JArr xs) \<Rightarrow> all_strings xs | _ \<Rightarrow> False)"
| "transcripts_args_spec v = False"

text \<open>
  The names of the tools that the handler of \<^verbatim>\<open>ListToolsRequestSchema\<close> advertises:
  \<^verbatim>\<open>LIST_CALLS_TOOL\<close>, \<^verbatim>\<open>RETRIEVE_TRANSCRIPTS_TOOL\<close>, \<^verbatim>\<open>RETRIEVE_CALL_DETAILS_TOOL\<close>.
\<close>

definition tool_catalog :: "string list" where
  "tool_catalog = [''list_calls'', ''retrieve_transcripts'', ''retrieve_call_details'']"

definition filter_keys :: "string list" where
  "filter_keys = [''callIds'', ''fromDateTime'', ''toDateTime'', ''primaryUserIds'', ''cursor'']"

text \<open>
  The filter object that \<^verbatim>\<open>retrieveCallDetails\<close> builds from its arguments, under a name,
  so that the properties below can speak of it; \<open>retrieveCallDetails_request\<close> shows that
  it is the filter of the request body.
\<close>

definition callDetails_filter :: "jsval \<Rightarrow> jsval" where
  "callDetails_filter args =
     (let filter = JObj [];
          filter = (if truthy (get_property args ''callIds'')
                    then set_prop filter ''callIds'' (get_property args ''callIds'')
                    else filter);
          filter = (if truthy (get_property args ''fromDateTime'')
                    then set_prop filter ''fromDateTime'' (get_property args ''fromDateTime'')
                    else filter);
          filter = (if truthy (get_property args ''toDateTime'')
                    then set_prop filter ''toDateTime'' (get_property args ''toDateTime'')
                    else filter);
          filter = (if truthy (get_property args ''primaryUserIds'')
                    then set_prop filter ''primaryUserIds'' (get_property args ''primaryUserIds'')
                    else filter);
          filter = (if truthy (get_property args ''cursor'')
                    then set_prop filter ''cursor'' (get_property args ''cursor'')
                    else filter)
      in filter)"

text \<open>\<^verbatim>\<open>delete o.k\<close>: the object without the property.\<close>

fun delete_prop :: "jsval \<Rightarrow> string \<Rightarrow> jsval" where
  "delete_prop (JObj kvs) k = JObj (filter (\<lambda>kv. fst kv \<noteq> k) kvs)"
| "delete_prop v k = v"

text \<open>
  The payloads that \<^verbatim>\<open>request\<close> hands to the signature generator: it signs
  \<^verbatim>\<open>data || params\<close>, where \<^verbatim>\<open>data\<close> is a \<^verbatim>\<open>Record<string, unknown>\<close> or absent and
  \<^verbatim>\<open>params\<close> a \<^verbatim>\<open>Record<string, string | undefined>\<close> or absent. A payload is
  therefore absent or an object; arrays are admitted with the objects.
\<close>

fun request_payload :: "jsval \<Rightarrow> bool" where
  "request_payload JUndefined = True"
| "request_payload (JObj kvs) = True"
| "request_payload (JArr xs) = True"
| "request_payload v = False"

text \<open>A client and a world to run the definitions on.\<close>

definition test_client :: GongClient where
  "test_client = \<lparr> accessKey = ''key'', accessSecret = ''secret'' \<rparr>"

definition test_world :: world where
  "test_world = \<lparr> clock = ''2024-03-01T00:00:00.000Z'',
                   respond = (\<lambda>req. Inr (JObj [(''calls'', JArr [])])),
                   sent = [] \<rparr>"

text \<open>
  The tool call \<^verbatim>\<open>retrieve_transcripts\<close> with \<^verbatim>\<open>{callIds: [callId]}\<close> on the test client
  and world: the body that \<^verbatim>\<open>retrieveTranscripts\<close> sends, the signature of that body, and
  the \<^verbatim>\<open>X-Gong-Signature\<close> headers of the requests that the handler sends.
\<close>

definition transcripts_payload :: "string \<Rightarrow> jsval" where
  "transcripts_payload callId =
     JObj [(''filter'',
            JObj [(''callIds'', JArr [JStr callId]),
                  (''includeEntities'', JBool True),
                  (''includeInteractionsSummary'', JBool True),
                  (''includeTrackers'', JBool True)])]"

definition transcripts_signature :: "string \<Rightarrow> exn + string" where
  "transcripts_signature callId =
     generateSignature test_client ''POST'' ''/calls/transcript'' (clock test_world)
       (transcripts_payload callId)"

definition sent_signatures :: "string \<Rightarrow> string option list" where
  "sent_signatures callId =
     map (\<lambda>r. map_of (req_headers r) ''X-Gong-Signature'')
       (sent (snd (CallToolRequest_handler test_client ''retrieve_transcripts''
                     (JObj [(''callIds'', JArr [JStr callId])]) test_world)))"

section \<open>Properties\<close>

subsection \<open>Helper facts\<close>

text \<open>The client of a server that started has a non-empty key and a non-empty secret.\<close>

lemma gongClient_credentials:
  "gongClient k s = Some c \<Longrightarrow> accessKey c \<noteq> [] \<and> accessSecret c \<noteq> []"
  by (auto simp: gongClient_def split: option.splits if_splits)

lemma op_in_absent:
  "op_in k args = Inr False \<Longrightarrow>
     get_property args k = JUndefined \<and> args \<noteq> JUndefined \<and> args \<noteq> JNull"
  by (cases args) (auto split: option.splits)

lemma all_strings_iff: "all_strings xs = list_all (\<lambda>id. typeof id = ''string'') xs"
  by (induction xs rule: all_strings.induct) auto

lemma serialize_None_iff: "SerializeJSONProperty gap ind v = None \<longleftrightarrow> v = JUndefined"
  by (cases v) (simp_all add: Let_def)

lemma JSON_stringify_truthy: "truthy v \<Longrightarrow> \<exists>s. JSON_stringify v = Some s"
  using serialize_None_iff[of "[]" "[]" v]
  by (cases "JSON_stringify v") (auto simp: JSON_stringify_def)

lemma byte_of_char_of: "(of_nat (of_char (char_of (unat (b :: byte)))) :: byte) = b"
proof -
  have "unat b < 256" using unsigned_less[of b, where 'a=nat] by simp
  then show ?thesis by simp
qed

lemma btoa_fromCharCode: "btoa (String_fromCharCode bs) = base64 bs"
proof -
  have "map (\<lambda>ch. of_nat (of_char ch)) (map (\<lambda>b. char_of (unat b)) bs) = bs"
    by (induction bs) (simp_all add: byte_of_char_of del: of_char_of)
  then show ?thesis by (simp add: btoa_def String_fromCharCode_def)
qed

lemma TextEncoder_encode_empty: "TextEncoder_encode s = [] \<longleftrightarrow> s = []"
  by (cases s) (simp_all add: TextEncoder_encode_def Let_def)

lemma generateSignature_ok:
  "accessSecret c \<noteq> [] \<Longrightarrow>
     generateSignature c m p t x =
       Inr (base64 (hmac_sha256 (TextEncoder_encode (accessSecret c))
                      (TextEncoder_encode (stringToSign m p t x))))"
  by (simp add: generateSignature_def importKey_HMAC_def sign_HMAC_def Let_def
      TextEncoder_encode_empty btoa_fromCharCode)

lemma split_at_separator:
  "c \<notin> set a \<Longrightarrow> c \<notin> set a' \<Longrightarrow> a @ c # b = a' @ c # b' \<Longrightarrow> a = a' \<and> b = b'"
proof (induction a arbitrary: a')
  case Nil
  then show ?case by (cases a') auto
next
  case (Cons h a)
  then show ?case by (cases a') auto
qed

subsection \<open>Base64 and UTF-8 lose nothing; the hash has 32 bytes\<close>

lemma distinct_base64_alphabet: "distinct base64_alphabet"
  by (simp add: base64_alphabet_def)
lemma length_base64_alphabet: "length base64_alphabet = 64"
  by (simp add: base64_alphabet_def)
lemma pad_not_in_alphabet: "CHR ''='' \<notin> set base64_alphabet"
  by (simp add: base64_alphabet_def)

lemma mask63: "(x :: 32 word) AND 63 = take_bit 6 x"
  by (simp add: take_bit_eq_mask mask_eq_exp_minus_1)

lemma sextet_index_less: "unat (take_bit 6 (x :: 32 word)) < 64"
  using unsigned_take_bit_eq[of 6 x, where 'a=nat] take_bit_nat_less_exp[of 6 "unat x"] by simp

lemma bit_triple:
  "bit (triple a b c) k \<longleftrightarrow>
     (k < 8 \<and> bit c k) \<or> (8 \<le> k \<and> k < 16 \<and> bit b (k - 8)) \<or> (16 \<le> k \<and> k < 24 \<and> bit a (k - 16))"
  by (auto simp: triple_def bit_simps dest: bit_imp_le_length)

lemma sextet_inj: "sextet x = sextet y \<Longrightarrow> take_bit 6 x = take_bit 6 y"
proof -
  assume e: "sextet x = sextet y"
  then have "base64_alphabet ! unat (take_bit 6 x) = base64_alphabet ! unat (take_bit 6 y)"
    by (simp add: sextet_def mask63)
  with distinct_base64_alphabet length_base64_alphabet sextet_index_less[of x]
    sextet_index_less[of y] have "unat (take_bit 6 x) = unat (take_bit 6 y)"
    by (simp add: nth_eq_iff_index_eq)
  then show ?thesis by (simp add: word_unat_eq_iff)
qed

lemma sextet_not_pad: "sextet x \<noteq> CHR ''=''"
proof -
  have "sextet x \<in> set base64_alphabet"
    unfolding sextet_def mask63 using sextet_index_less[of x] length_base64_alphabet
    by (intro nth_mem) simp
  with pad_not_in_alphabet show ?thesis by auto
qed

lemma sextet_bits:
  assumes "sextet (drop_bit s n) = sextet (drop_bit s n')" and "s \<le> k" and "k < s + 6"
  shows "bit n k = bit n' k"
proof -
  from sextet_inj[OF assms(1)]
  have "bit (take_bit 6 (drop_bit s n)) (k - s) = bit (take_bit 6 (drop_bit s n')) (k - s)"
    by simp
  moreover from assms(2,3) have "k - s < 6" by arith
  ultimately show ?thesis using assms(2) by (simp add: bit_take_bit_iff bit_drop_bit_eq)
qed

lemma triple_first:
  assumes "sextet (drop_bit 18 (triple a b c)) = sextet (drop_bit 18 (triple a' b' c'))"
    and "sextet (drop_bit 12 (triple a b c)) = sextet (drop_bit 12 (triple a' b' c'))"
  shows "a = a'"
proof (rule bit_eqI)
  fix i
  assume "possible_bit TYPE(byte) i"
  then have i: "i < 8" by (simp add: possible_bit_def)
  have "bit (triple a b c) (16 + i) = bit (triple a' b' c') (16 + i)"
  proof (cases "16 + i < 18")
    case True
    then show ?thesis using sextet_bits[OF assms(2), of "16 + i"] by simp
  next
    case False
    with i show ?thesis using sextet_bits[OF assms(1), of "16 + i"] by simp
  qed
  with i show "bit a i = bit a' i" by (simp add: bit_triple)
qed

lemma triple_second:
  assumes "sextet (drop_bit 12 (triple a b c)) = sextet (drop_bit 12 (triple a' b' c'))"
    and "sextet (drop_bit 6 (triple a b c)) = sextet (drop_bit 6 (triple a' b' c'))"
  shows "b = b'"
proof (rule bit_eqI)
  fix i
  assume "possible_bit TYPE(byte) i"
  then have i: "i < 8" by (simp add: possible_bit_def)
  have "bit (triple a b c) (8 + i) = bit (triple a' b' c') (8 + i)"
  proof (cases "8 + i < 12")
    case True
    then show ?thesis using sextet_bits[OF assms(2), of "8 + i"] by simp
  next
    case False
    with i show ?thesis using sextet_bits[OF assms(1), of "8 + i"] by simp
  qed
  with i show "bit b i = bit b' i" by (simp add: bit_triple)
qed

lemma triple_third:
  assumes "sextet (drop_bit 6 (triple a b c)) = sextet (drop_bit 6 (triple a' b' c'))"
    and "sextet (triple a b c) = sextet (triple a' b' c')"
  shows "c = c'"
proof (rule bit_eqI)
  fix i
  assume "possible_bit TYPE(byte) i"
  then have i: "i < 8" by (simp add: possible_bit_def)
  have "bit (triple a b c) i = bit (triple a' b' c') i"
  proof (cases "i < 6")
    case True
    then show ?thesis using sextet_bits[of 0 "triple a b c" "triple a' b' c'" i] assms(2) by simp
  next
    case False
    with i show ?thesis using sextet_bits[OF assms(1), of i] by simp
  qed
  with i show "bit c i = bit c' i" by (simp add: bit_triple)
qed

lemma base64_inj: "base64 xs = base64 ys \<Longrightarrow> xs = ys"
proof (induction xs arbitrary: ys rule: base64.induct)
  case 1
  then show ?case by (cases ys rule: base64.cases) (simp_all add: Let_def)
next
  case (2 a)
  then show ?case
    by (cases ys rule: base64.cases)
      (auto simp: Let_def sextet_not_pad sextet_not_pad[symmetric] dest: triple_first)
next
  case (3 a b)
  then show ?case
    by (cases ys rule: base64.cases)
      (auto simp: Let_def sextet_not_pad sextet_not_pad[symmetric] dest: triple_first triple_second)
next
  case (4 a b c rest)
  then show ?case
    by (cases ys rule: base64.cases)
      (auto simp: Let_def sextet_not_pad sextet_not_pad[symmetric]
            dest: triple_first triple_second triple_third)
qed

lemma of_char_less: "(of_char ch :: nat) < 256"
proof -
  have "(of_char ch :: nat) mod 256 = of_char ch" by simp
  then show ?thesis by (metis mod_less_divisor zero_less_numeral)
qed

lemma byte_of_nat_eq: "(of_nat x :: byte) = of_nat y \<Longrightarrow> x < 256 \<Longrightarrow> y < 256 \<Longrightarrow> x = y"
proof -
  assume "(of_nat x :: byte) = of_nat y" and x: "x < 256" and y: "y < 256"
  then have "unat (of_nat x :: byte) = unat (of_nat y :: byte)" by simp
  with x y show ?thesis by (simp add: unat_of_nat)
qed

lemma encode_Cons_ascii:
  "(of_char ch :: nat) < 128 \<Longrightarrow>
     TextEncoder_encode (ch # s) = of_nat (of_char ch) # TextEncoder_encode s"
  by (simp add: TextEncoder_encode_def)

lemma encode_Cons_two:
  "\<not> (of_char ch :: nat) < 128 \<Longrightarrow>
     TextEncoder_encode (ch # s)
       = of_nat (192 + of_char ch div 64) # of_nat (128 + of_char ch mod 64)
           # TextEncoder_encode s"
  by (simp add: TextEncoder_encode_def Let_def del: of_nat_add of_nat_numeral)

lemma encode_Nil: "TextEncoder_encode [] = []"
  by (simp add: TextEncoder_encode_def)

lemma encode_head:
  assumes "TextEncoder_encode (a # s) = TextEncoder_encode (b # s')"
  shows "a = b \<and> TextEncoder_encode s = TextEncoder_encode s'"
proof -
  let ?na = "of_char a :: nat" and ?nb = "of_char b :: nat"
  have la: "?na < 256" and lb: "?nb < 256" by (rule of_char_less)+
  have "?na = ?nb \<and> TextEncoder_encode s = TextEncoder_encode s'"
  proof (cases "?na < 128")
    case a: True
    show ?thesis
    proof (cases "?nb < 128")
      case True
      with a assms have "(of_nat ?na :: byte) = of_nat ?nb"
        and 3: "TextEncoder_encode s = TextEncoder_encode s'"
        by (simp_all add: encode_Cons_ascii)
      from byte_of_nat_eq[OF this(1) la lb] 3 show ?thesis by simp
    next
      case False
      with a assms have "(of_nat ?na :: byte) = of_nat (192 + ?nb div 64)"
        by (simp add: encode_Cons_ascii encode_Cons_two del: of_nat_add of_nat_numeral)
      moreover have "192 + ?nb div 64 < 256" using lb by arith
      ultimately have "?na = 192 + ?nb div 64" using la by (metis byte_of_nat_eq)
      with a show ?thesis by simp
    qed
  next
    case a: False
    show ?thesis
    proof (cases "?nb < 128")
      case True
      with a assms have "(of_nat (192 + ?na div 64) :: byte) = of_nat ?nb"
        by (simp add: encode_Cons_ascii encode_Cons_two del: of_nat_add of_nat_numeral)
      moreover have "192 + ?na div 64 < 256" using la by arith
      ultimately have "192 + ?na div 64 = ?nb" using lb by (metis byte_of_nat_eq)
      with True show ?thesis by simp
    next
      case False
      with a assms have 1: "(of_nat (192 + ?na div 64) :: byte) = of_nat (192 + ?nb div 64)"
        and 2: "(of_nat (128 + ?na mod 64) :: byte) = of_nat (128 + ?nb mod 64)"
        and 3: "TextEncoder_encode s = TextEncoder_encode s'"
        by (simp_all add: encode_Cons_two del: of_nat_add of_nat_numeral)
      have "192 + ?na div 64 < 256" "192 + ?nb div 64 < 256" using la lb by arith+
      from byte_of_nat_eq[OF 1 this] have "?na div 64 = ?nb div 64" by simp
      moreover have "128 + ?na mod 64 < 256" "128 + ?nb mod 64 < 256" by simp_all
      from byte_of_nat_eq[OF 2 this] have "?na mod 64 = ?nb mod 64" by simp
      ultimately have "?na = ?nb" by (metis div_mult_mod_eq)
      with 3 show ?thesis by simp
    qed
  qed
  then show ?thesis by simp
qed

lemma encode_Cons_nonempty: "TextEncoder_encode (a # s) \<noteq> []"
  by (cases "(of_char a :: nat) < 128") (simp_all add: encode_Cons_ascii encode_Cons_two)

lemma TextEncoder_encode_inj: "TextEncoder_encode s = TextEncoder_encode s' \<Longrightarrow> s = s'"
proof (induction s arbitrary: s')
  case Nil
  show ?case
  proof (cases s')
    case (Cons b t)
    with Nil encode_Cons_nonempty[of b t] show ?thesis by (simp add: encode_Nil)
  qed simp
next
  case (Cons a s)
  show ?case
  proof (cases s')
    case Nil
    with Cons.prems encode_Cons_nonempty[of a s] show ?thesis by (simp add: encode_Nil)
  next
    case (Cons b t)
    with Cons.prems encode_head[of a s b t] Cons.IH[of t] show ?thesis by simp
  qed
qed

lemma length_sha_round: "length st = 8 \<Longrightarrow> length (sha_round st kw) = 8"
proof -
  assume "length st = 8"
  then obtain a b c d e f g h where "st = [a, b, c, d, e, f, g, h]"
    by (auto simp: length_Suc_conv numeral_eq_Suc)
  then show ?thesis by (cases kw) (simp add: Let_def)
qed

lemma length_foldl_sha_round: "length st = 8 \<Longrightarrow> length (foldl sha_round st xs) = 8"
  by (induction xs arbitrary: st) (simp_all add: length_sha_round)

lemma length_compress: "length H = 8 \<Longrightarrow> length (compress H block) = 8"
  by (simp add: compress_def length_foldl_sha_round)

lemma length_foldl_compress: "length H = 8 \<Longrightarrow> length (foldl compress H bs) = 8"
  by (induction bs arbitrary: H) (simp_all add: length_compress)

lemma length_be_bytes: "length (be_bytes k w) = k"
  by (simp add: be_bytes_def)

lemma length_concat_be_bytes: "length (concat (map (be_bytes 4) H)) = 4 * length H"
  by (induction H) (simp_all add: length_be_bytes)

lemma length_sha256: "length (sha256 m) = 32"
  by (simp add: sha256_def length_concat_be_bytes length_foldl_compress initial_hash_def)

lemma length_hmac_sha256: "length (hmac_sha256 key msg) = 32"
  by (simp add: hmac_sha256_def Let_def length_sha256)

subsection \<open>The call-details filter requirement\<close>

text \<open>
  Claim C1. When the arguments of a call-details invocation contain none of \<^verbatim>\<open>callIds\<close>,
  \<^verbatim>\<open>fromDateTime\<close>, \<^verbatim>\<open>toDateTime\<close>, \<^verbatim>\<open>primaryUserIds\<close> (the operator \<^verbatim>\<open>in\<close> answers false
  for each), \<^verbatim>\<open>retrieveCallDetails\<close> throws the error with the message
  "At least one filter parameter is required" and leaves the world as it was: no request is
  added to \<open>sent\<close>.
\<close>

theorem retrieveCallDetails_requires_selector:
  assumes "op_in ''callIds'' args = Inr False"
    and "op_in ''fromDateTime'' args = Inr False"
    and "op_in ''toDateTime'' args = Inr False"
    and "op_in ''primaryUserIds'' args = Inr False"
  shows "retrieveCallDetails c args w =
           (Inl (Error ''At least one filter parameter is required''), w)"
  using assms[THEN op_in_absent]
  by (simp add: retrieveCallDetails_def member_access_def)

text \<open>The empty argument object and the object whose only field is a cursor.\<close>

theorem retrieveCallDetails_requires_selector_witness:
  "retrieveCallDetails test_client (JObj []) test_world =
     (Inl (Error ''At least one filter parameter is required''), test_world)
   \<and> retrieveCallDetails test_client (JObj [(''cursor'', JStr ''abc'')]) test_world =
     (Inl (Error ''At least one filter parameter is required''), test_world)
   \<and> sent (snd (retrieveCallDetails test_client (JObj [(''cursor'', JStr ''abc'')]) test_world))
       = []"
  using retrieveCallDetails_requires_selector[of "JObj []" test_client test_world]
    retrieveCallDetails_requires_selector
      [of "JObj [(''cursor'', JStr ''abc'')]" test_client test_world]
  by (simp add: test_world_def)

subsection \<open>The retrieve-transcripts type guard\<close>

text \<open>
  Claim C7. On every input value \<^verbatim>\<open>isGongRetrieveTranscriptsArgs\<close> returns, without
  raising, and its answer is true exactly when the input is an object with a \<^verbatim>\<open>callIds\<close>
  field that is an array of strings. It rejects \<^verbatim>\<open>{}\<close> and
  \<^verbatim>\<open>{callIds: "not-an-array"}\<close> and accepts \<^verbatim>\<open>{callIds: ["a", "b"]}\<close>. The guard is a function
  of its argument alone: it reads no world and returns none, and it builds no value.
\<close>

theorem isGongRetrieveTranscriptsArgs_spec:
  "isGongRetrieveTranscriptsArgs v = Inr (transcripts_args_spec v)
   \<and> isGongRetrieveTranscriptsArgs (JObj []) = Inr False
   \<and> isGongRetrieveTranscriptsArgs (JObj [(''callIds'', JStr ''not-an-array'')]) = Inr False
   \<and> isGongRetrieveTranscriptsArgs (JObj [(''callIds'', JArr [JStr ''a'', JStr ''b''])])
       = Inr True"
proof -
  have "isGongRetrieveTranscriptsArgs v = Inr (transcripts_args_spec v)"
  proof (cases v)
    case (JObj kvs)
    show ?thesis
    proof (cases "map_of kvs ''callIds''")
      case None
      with JObj show ?thesis by (simp add: isGongRetrieveTranscriptsArgs_def)
    next
      case (Some x)
      with JObj show ?thesis
        by (cases x)
          (simp_all add: isGongRetrieveTranscriptsArgs_def member_access_def all_strings_iff)
    qed
  qed (simp_all add: isGongRetrieveTranscriptsArgs_def)
  moreover have "isGongRetrieveTranscriptsArgs (JObj []) = Inr False"
    by (simp add: isGongRetrieveTranscriptsArgs_def)
  moreover have
    "isGongRetrieveTranscriptsArgs (JObj [(''callIds'', JStr ''not-an-array'')]) = Inr False"
    by (simp add: isGongRetrieveTranscriptsArgs_def member_access_def)
  moreover have
    "isGongRetrieveTranscriptsArgs (JObj [(''callIds'', JArr [JStr ''a'', JStr ''b''])])
       = Inr True"
    by (simp add: isGongRetrieveTranscriptsArgs_def member_access_def)
  ultimately show ?thesis by blast
qed

subsection \<open>Error results of the tool handler\<close>

lemma call_tool_result_cases:
  assumes "call_tool c name args w = (Inr r, w')"
  shows "(r = text_result (Some (''Unknown tool: '' @ name)) True \<and> w' = w
            \<and> truthy args \<and> name \<notin> set tool_catalog)
         \<or> \<not> isError r"
  using assms
  by (auto simp: call_tool_def text_result_def tool_catalog_def
      split: if_splits sum.splits prod.splits)

text \<open>
  Claim C3, as stated, fails: a call of a tool that is not in the catalog, with arguments,
  gives a result flagged as an error whose text is "Unknown tool: delete_calls"; the text
  does not begin with "Error: ".
\<close>

theorem unknown_tool_text_counterexample:
  "fst (CallToolRequest_handler test_client ''delete_calls'' (JObj []) test_world)
     = \<lparr> content_type = ''text'', content_text = Some ''Unknown tool: delete_calls'',
         isError = True \<rparr>
   \<and> take 7 ''Unknown tool: delete_calls'' \<noteq> ''Error: ''"
  by (simp add: CallToolRequest_handler_def call_tool_def text_result_def)

text \<open>
  Claim C3, amended. A result flagged as an error comes from one of two places. Either the
  body of the handler threw an exception, and then the text is "Error: " followed by the
  message of that exception; or the tool name is not in the catalog and arguments were given,
  and then the text is "Unknown tool: " followed by the requested name.
\<close>

theorem error_result_text:
  assumes "isError (fst (CallToolRequest_handler c name args w))"
  shows "(\<exists>e. fst (call_tool c name args w) = Inl e
              \<and> content_text (fst (CallToolRequest_handler c name args w))
                  = Some (''Error: '' @ message e))
         \<or> (truthy args \<and> name \<notin> set tool_catalog
            \<and> content_text (fst (CallToolRequest_handler c name args w))
                  = Some (''Unknown tool: '' @ name))"
proof (cases "call_tool c name args w")
  case (Pair res w')
  show ?thesis
  proof (cases res)
    case (Inl e)
    with Pair show ?thesis by (simp add: CallToolRequest_handler_def text_result_def)
  next
    case (Inr r)
    with Pair assms have "isError r" by (simp add: CallToolRequest_handler_def)
    with call_tool_result_cases[of c name args w r w'] Pair Inr
    show ?thesis by (auto simp: CallToolRequest_handler_def text_result_def)
  qed
qed

theorem error_result_text_witness:
  "isError (fst (CallToolRequest_handler test_client ''retrieve_call_details'' (JObj [])
                   test_world))
   \<and> content_text (fst (CallToolRequest_handler test_client ''retrieve_call_details'' (JObj [])
                          test_world))
       = Some ''Error: At least one filter parameter is required''"
  using error_result_text[of test_client "''retrieve_call_details''" "JObj []" test_world]
  by (simp add: CallToolRequest_handler_def call_tool_def text_result_def
      isGongRetrieveCallDetailsArgs_def falsy_or_string_def falsy_or_string_array_def
      member_access_def retrieveCallDetails_def)

subsection \<open>Unknown tools\<close>

text \<open>
  Claim C6, as stated, fails: the handler tests for missing arguments before it looks at the
  tool name, so a call of an unknown tool without arguments is answered with
  "Error: No arguments provided", which names neither "Unknown tool" nor the tool.
\<close>

theorem unknown_tool_without_arguments_counterexample:
  "CallToolRequest_handler test_client ''delete_calls'' JUndefined test_world
     = (\<lparr> content_type = ''text'', content_text = Some ''Error: No arguments provided'',
          isError = True \<rparr>, test_world)
   \<and> ''delete_calls'' \<notin> set tool_catalog"
  by (simp add: CallToolRequest_handler_def call_tool_def text_result_def tool_catalog_def)

text \<open>
  Claim C6, amended. For a tool name that is not in the catalog and arguments that are
  present (truthy), the handler returns the error result with the text "Unknown tool: "
  followed by the requested name, and sends nothing. The handler is a total function: it
  returns a result and never throws.
\<close>

theorem unknown_tool_result:
  assumes "name \<notin> set tool_catalog" and "truthy args"
  shows "CallToolRequest_handler c name args w
           = (\<lparr> content_type = ''text'', content_text = Some (''Unknown tool: '' @ name),
                isError = True \<rparr>, w)"
  using assms
  by (simp add: CallToolRequest_handler_def call_tool_def text_result_def tool_catalog_def)

theorem unknown_tool_result_witness:
  "CallToolRequest_handler test_client ''delete_calls'' (JObj []) test_world
     = (\<lparr> content_type = ''text'', content_text = Some ''Unknown tool: delete_calls'',
          isError = True \<rparr>, test_world)"
  using unknown_tool_result[of "''delete_calls''" "JObj []" test_client test_world]
  by (simp add: tool_catalog_def)

subsection \<open>The signature\<close>

lemma request_payload_cases:
  "request_payload x \<Longrightarrow> x = JUndefined \<or> truthy x"
  by (cases x) simp_all

lemma stringToSign_canonical:
  "request_payload x \<Longrightarrow> stringToSign m p t x = canonical_string m p t x"
  using JSON_stringify_truthy[of x] request_payload_cases[of x]
  by (auto simp: stringToSign_def canonical_string_def JSON_stringify_def)

text \<open>
  Claim C2. For a client with a non-empty access secret (the client of a server that
  started has one), every method, path and timestamp, and every payload that
  \<^verbatim>\<open>request\<close> can hand over, absent or an object or an array, the signature generator
  returns the standard base64 encoding, with padding, of the HMAC-SHA-256, keyed with the
  access secret, of method, path, timestamp and the JSON serialization of the payload,
  separated by single newlines in that order. For the absent payload the serialization is the
  empty string: the canonical string ends with the third newline and not with "undefined"
  or "null".
\<close>

theorem generateSignature_canonical:
  assumes "accessSecret c \<noteq> []" and "request_payload payload"
  shows "generateSignature c m p t payload =
           Inr (signature_spec (accessSecret c) m p t payload)
         \<and> canonical_string m p t JUndefined = m @ [CHR 0x0A] @ p @ [CHR 0x0A] @ t @ [CHR 0x0A]"
  using assms
  by (simp add: generateSignature_ok signature_spec_def stringToSign_canonical
      canonical_string_def JSON_stringify_def)

text \<open>An object payload, the absent payload and an array payload.\<close>

theorem generateSignature_canonical_witness:
  "generateSignature test_client ''POST'' ''/calls/transcript'' ''2024-03-01T00:00:00.000Z''
       (JObj [(''filter'', JObj [(''callIds'', JArr [JStr ''7''])])])
     = Inr (signature_spec ''secret'' ''POST'' ''/calls/transcript'' ''2024-03-01T00:00:00.000Z''
              (JObj [(''filter'', JObj [(''callIds'', JArr [JStr ''7''])])]))
   \<and> generateSignature test_client ''GET'' ''/calls'' ''t'' JUndefined
     = Inr (signature_spec ''secret'' ''GET'' ''/calls'' ''t'' JUndefined)
   \<and> generateSignature test_client ''GET'' ''/calls'' ''t'' (JArr [])
     = Inr (signature_spec ''secret'' ''GET'' ''/calls'' ''t'' (JArr []))
   \<and> canonical_string ''GET'' ''/calls'' ''t'' JUndefined
     = ''GET'' @ [CHR 0x0A] @ ''/calls'' @ [CHR 0x0A] @ ''t'' @ [CHR 0x0A]"
  using generateSignature_canonical[of test_client
      "JObj [(''filter'', JObj [(''callIds'', JArr [JStr ''7''])])]"
      "''POST''" "''/calls/transcript''" "''2024-03-01T00:00:00.000Z''"]
    generateSignature_canonical[of test_client JUndefined "''GET''" "''/calls''" "''t''"]
    generateSignature_canonical[of test_client "JArr []" "''GET''" "''/calls''" "''t''"]
  by (simp add: test_client_def)

subsection \<open>Signatures of inputs that differ\<close>

lemma nat_digits_nonempty: "nat_digits n \<noteq> []"
  by (subst nat_digits.simps) simp

lemma serialize_nonempty: "SerializeJSONProperty gap ind v = Some s \<Longrightarrow> s \<noteq> []"
  using nat_digits_nonempty
  by (cases v) (auto simp: Let_def QuoteJSONString_def Number_toString_def split: if_splits)

lemma payload_segment_inj:
  assumes "request_payload x" and "request_payload x'"
    and "(if truthy x then interpolate (JSON_stringify x) else [])
           = (if truthy x' then interpolate (JSON_stringify x') else [])"
  shows "JSON_stringify x = JSON_stringify x'"
proof -
  have seg: "(truthy y \<and> (\<exists>s. s \<noteq> [] \<and> JSON_stringify y = Some s))
             \<or> (\<not> truthy y \<and> JSON_stringify y = None)"
    if rp: "request_payload y" for y
  proof (cases "truthy y")
    case True
    then obtain s where s: "JSON_stringify y = Some s"
      using JSON_stringify_truthy by blast
    then have "s \<noteq> []"
      using serialize_nonempty[of "[]" "[]" y s] by (simp add: JSON_stringify_def)
    with True s show ?thesis by simp
  next
    case False
    with rp have "y = JUndefined" using request_payload_cases by blast
    then show ?thesis by (simp add: JSON_stringify_def)
  qed
  from seg[OF assms(1)] seg[OF assms(2)] assms(3) show ?thesis by auto
qed

lemma stringToSign_inj:
  assumes nl: "CHR 0x0A \<notin> set m" "CHR 0x0A \<notin> set p" "CHR 0x0A \<notin> set t"
      "CHR 0x0A \<notin> set m'" "CHR 0x0A \<notin> set p'" "CHR 0x0A \<notin> set t'"
    and pl: "request_payload x" "request_payload x'"
    and eq: "stringToSign m p t x = stringToSign m' p' t' x'"
  shows "m = m' \<and> p = p' \<and> t = t' \<and> JSON_stringify x = JSON_stringify x'"
proof -
  define s where "s = (if truthy x then interpolate (JSON_stringify x) else [])"
  define s' where "s' = (if truthy x' then interpolate (JSON_stringify x') else [])"
  from eq have e: "m @ CHR 0x0A # (p @ CHR 0x0A # (t @ CHR 0x0A # s))
                 = m' @ CHR 0x0A # (p' @ CHR 0x0A # (t' @ CHR 0x0A # s'))"
    by (simp add: stringToSign_def s_def s'_def)
  from split_at_separator[OF nl(1,4) e]
  have 1: "m = m'"
    and e2: "p @ CHR 0x0A # (t @ CHR 0x0A # s) = p' @ CHR 0x0A # (t' @ CHR 0x0A # s')"
    by simp_all
  from split_at_separator[OF nl(2,5) e2]
  have 2: "p = p'" and e3: "t @ CHR 0x0A # s = t' @ CHR 0x0A # s'"
    by simp_all
  from split_at_separator[OF nl(3,6) e3]
  have 3: "t = t'" and e4: "s = s'"
    by simp_all
  from payload_segment_inj[OF pl] e4 have "JSON_stringify x = JSON_stringify x'"
    by (simp add: s_def s'_def)
  with 1 2 3 show ?thesis by simp
qed

lemma finite_signatures: "finite (range transcripts_signature)"
proof -
  have "finite {bs :: byte list. set bs \<subseteq> UNIV \<and> length bs = 32}"
    by (rule finite_lists_length_eq) simp
  then have fin: "finite ((\<lambda>bs. (Inr (base64 bs) :: exn + string))
                            ` {bs :: byte list. set bs \<subseteq> UNIV \<and> length bs = 32})"
    by (rule finite_imageI)
  have "range transcripts_signature
          \<subseteq> (\<lambda>bs. (Inr (base64 bs) :: exn + string))
                ` {bs :: byte list. set bs \<subseteq> UNIV \<and> length bs = 32}"
    by (auto simp: transcripts_signature_def generateSignature_ok test_client_def
        length_hmac_sha256)
  with fin show ?thesis by (rule finite_subset[rotated])
qed

text \<open>
  The handler sends exactly one request for the tool call, a POST of the transcripts body,
  and its signature header is the signature of that body.
\<close>

lemma handler_sends_transcripts_signature:
  "\<exists>signature. transcripts_signature callId = Inr signature
     \<and> map (\<lambda>r. (req_method r, req_url r, req_data r))
         (sent (snd (CallToolRequest_handler test_client ''retrieve_transcripts''
                       (JObj [(''callIds'', JArr [JStr callId])]) test_world)))
       = [(''POST'', ''https://api.gong.io/v2/calls/transcript'', transcripts_payload callId)]
     \<and> sent_signatures callId = [Some signature]"
proof -
  have s: "accessSecret test_client \<noteq> []" by (simp add: test_client_def)
  have v: "isGongRetrieveTranscriptsArgs (JObj [(''callIds'', JArr [JStr callId])]) = Inr True"
    by (simp add: isGongRetrieveTranscriptsArgs_def member_access_def)
  show ?thesis
    by (simp add: transcripts_signature_def sent_signatures_def generateSignature_ok[OF s]
        CallToolRequest_handler_def call_tool_def v retrieveTranscripts_def request_def
        or_js_def axios_def Let_def transcripts_payload_def test_world_def GONG_API_URL_def
        split: sum.splits prod.splits)
qed

text \<open>
  Claim C5, as stated, fails on inputs that the generator receives. The tool call
  \<^verbatim>\<open>retrieve_transcripts\<close> with \<^verbatim>\<open>{callIds: [callId]}\<close> passes the type guard for every
  string \<^verbatim>\<open>callId\<close>, and different strings give different payloads; but a signature is the
  base64 text of 32 bytes, so there are finitely many signatures and infinitely many
  payloads: two different payloads have the same signature, under one secret, method, path
  and timestamp, and the handler sends the same signature header for them.
\<close>

theorem signature_collision_counterexample:
  "inj transcripts_payload \<and> \<not> inj transcripts_signature \<and> \<not> inj sent_signatures"
proof (intro conjI)
  show "inj transcripts_payload"
    by (simp add: inj_def transcripts_payload_def)
next
  show ni: "\<not> inj transcripts_signature"
  proof
    assume "inj transcripts_signature"
    with finite_signatures have "finite (UNIV :: string set)"
      by (rule finite_imageD)
    then show False by (simp add: infinite_UNIV_listI)
  qed
  show "\<not> inj sent_signatures"
  proof
    assume i: "inj sent_signatures"
    have "inj transcripts_signature"
    proof (rule injI)
      fix a b
      assume e: "transcripts_signature a = transcripts_signature b"
      from handler_sends_transcripts_signature[of a] handler_sends_transcripts_signature[of b] e
      have "sent_signatures a = sent_signatures b" by auto
      with i show "a = b" by (simp add: inj_eq)
    qed
    with ni show False by simp
  qed
qed

text \<open>
  Claim C5, amended. Take two signature-generator inputs with non-empty secrets, with
  method, path and timestamp free of newlines (as the verbs, the three fixed paths and an ISO
  timestamp are) and with payloads that are absent or objects or arrays. When they differ in
  the secret, the method, the path, the timestamp or the JSON serialization of the payload,
  the key and message bytes handed to HMAC-SHA-256 differ, and the two signatures are equal
  exactly when HMAC-SHA-256 has the same value on these two different inputs: the signatures
  differ unless the hash itself collides. In particular the payload \<^verbatim>\<open>{}\<close> and the absent
  payload canonicalize to different canonical strings.
\<close>

theorem signature_sensitivity:
  assumes "accessSecret c \<noteq> []" and "accessSecret c' \<noteq> []"
    and "CHR 0x0A \<notin> set m" and "CHR 0x0A \<notin> set p" and "CHR 0x0A \<notin> set t"
    and "CHR 0x0A \<notin> set m'" and "CHR 0x0A \<notin> set p'" and "CHR 0x0A \<notin> set t'"
    and "request_payload x" and "request_payload x'"
    and "(accessSecret c, m, p, t, JSON_stringify x)
           \<noteq> (accessSecret c', m', p', t', JSON_stringify x')"
  shows "(TextEncoder_encode (accessSecret c), TextEncoder_encode (stringToSign m p t x))
           \<noteq> (TextEncoder_encode (accessSecret c'), TextEncoder_encode (stringToSign m' p' t' x'))
         \<and> (generateSignature c m p t x = generateSignature c' m' p' t' x'
              \<longleftrightarrow> hmac_sha256 (TextEncoder_encode (accessSecret c))
                                (TextEncoder_encode (stringToSign m p t x))
                   = hmac_sha256 (TextEncoder_encode (accessSecret c'))
                                 (TextEncoder_encode (stringToSign m' p' t' x')))
         \<and> stringToSign m p t (JObj []) \<noteq> stringToSign m p t JUndefined"
proof (intro conjI)
  show "(TextEncoder_encode (accessSecret c), TextEncoder_encode (stringToSign m p t x))
           \<noteq> (TextEncoder_encode (accessSecret c'), TextEncoder_encode (stringToSign m' p' t' x'))"
  proof
    assume "(TextEncoder_encode (accessSecret c), TextEncoder_encode (stringToSign m p t x))
           = (TextEncoder_encode (accessSecret c'), TextEncoder_encode (stringToSign m' p' t' x'))"
    then have "accessSecret c = accessSecret c'"
      and "stringToSign m p t x = stringToSign m' p' t' x'"
      by (simp_all add: TextEncoder_encode_inj)
    with stringToSign_inj[OF assms(3-10)] assms(11) show False by simp
  qed
next
  show "generateSignature c m p t x = generateSignature c' m' p' t' x'
              \<longleftrightarrow> hmac_sha256 (TextEncoder_encode (accessSecret c))
                                (TextEncoder_encode (stringToSign m p t x))
                   = hmac_sha256 (TextEncoder_encode (accessSecret c'))
                                 (TextEncoder_encode (stringToSign m' p' t' x'))"
    using base64_inj by (auto simp: generateSignature_ok[OF assms(1)] generateSignature_ok[OF assms(2)])
next
  show "stringToSign m p t (JObj []) \<noteq> stringToSign m p t JUndefined"
    by (simp add: stringToSign_def JSON_stringify_def)
qed

text \<open>Two inputs that differ in the method alone.\<close>

theorem signature_sensitivity_witness:
  "(generateSignature test_client ''GET'' ''/calls'' ''t'' (JObj [])
      = generateSignature test_client ''POST'' ''/calls'' ''t'' (JObj [])
    \<longleftrightarrow> hmac_sha256 (TextEncoder_encode ''secret'')
            (TextEncoder_encode (stringToSign ''GET'' ''/calls'' ''t'' (JObj [])))
        = hmac_sha256 (TextEncoder_encode ''secret'')
            (TextEncoder_encode (stringToSign ''POST'' ''/calls'' ''t'' (JObj []))))
   \<and> TextEncoder_encode (stringToSign ''GET'' ''/calls'' ''t'' (JObj []))
       \<noteq> TextEncoder_encode (stringToSign ''POST'' ''/calls'' ''t'' (JObj []))
   \<and> stringToSign ''GET'' ''/calls'' ''t'' (JObj []) \<noteq> stringToSign ''GET'' ''/calls'' ''t'' JUndefined"
proof -
  have s: "accessSecret test_client \<noteq> []" by (simp add: test_client_def)
  have d: "(accessSecret test_client, ''GET'', ''/calls'', ''t'', JSON_stringify (JObj []))
             \<noteq> (accessSecret test_client, ''POST'', ''/calls'', ''t'', JSON_stringify (JObj []))"
    by simp
  from signature_sensitivity[OF s s _ _ _ _ _ _ _ _ d]
  show ?thesis by (simp add: test_client_def)
qed

subsection \<open>The request that a call-details invocation sends\<close>

lemma request_sends:
  assumes "accessSecret c \<noteq> []"
  shows "\<exists>r. request c m p ps d w = axios r w \<and> req_method r = m \<and> req_url r = GONG_API_URL @ p
             \<and> req_params r = ps \<and> req_data r = d"
  using assms
  apply (simp add: request_def generateSignature_ok Let_def)
  apply (rule exI, rule conjI, rule refl)
  apply simp
  done

lemma filter_props:
  "k \<in> set filter_keys \<Longrightarrow>
     get_property (callDetails_filter args) k
       = (if truthy (get_property args k) then get_property args k else JUndefined)
     \<and> op_in k (callDetails_filter args) = Inr (truthy (get_property args k))"
  by (auto simp: filter_keys_def callDetails_filter_def Let_def)


lemma retrieveCallDetails_unfold:
  assumes "args \<noteq> JUndefined" "args \<noteq> JNull"
  shows "retrieveCallDetails c args w =
           (if \<not> truthy (get_property args ''callIds'')
               \<and> \<not> truthy (get_property args ''fromDateTime'')
               \<and> \<not> truthy (get_property args ''toDateTime'')
               \<and> \<not> truthy (get_property args ''primaryUserIds'')
            then (Inl (Error ''At least one filter parameter is required''), w)
            else request c ''POST'' ''/calls/extensive'' JUndefined
                   (JObj [(''filter'', callDetails_filter args),
                          (''contentSelector'',
                           JObj [(''context'',
                                  or_js (get_property args ''context'') (JStr ''Extended''))])])
                   w)"
  using assms
  unfolding retrieveCallDetails_def member_access_def callDetails_filter_def Let_def
  by (simp split del: if_split)

lemma retrieveCallDetails_request:
  assumes "args \<noteq> JUndefined" "args \<noteq> JNull"
    and "truthy (get_property args ''callIds'') \<or> truthy (get_property args ''fromDateTime'')
         \<or> truthy (get_property args ''toDateTime'') \<or> truthy (get_property args ''primaryUserIds'')"
  shows "retrieveCallDetails c args w =
           request c ''POST'' ''/calls/extensive'' JUndefined
             (JObj [(''filter'', callDetails_filter args),
                    (''contentSelector'',
                     JObj [(''context'', or_js (get_property args ''context'') (JStr ''Extended''))])]) w"
  using assms(3) by (auto simp add: retrieveCallDetails_unfold[OF assms(1,2)])

lemma retrieveCallDetails_sends:
  assumes "accessSecret c \<noteq> []" "args \<noteq> JUndefined" "args \<noteq> JNull"
    and "truthy (get_property args ''callIds'') \<or> truthy (get_property args ''fromDateTime'')
         \<or> truthy (get_property args ''toDateTime'') \<or> truthy (get_property args ''primaryUserIds'')"
  shows "\<exists>r. retrieveCallDetails c args w = axios r w
           \<and> req_method r = ''POST'' \<and> req_url r = ''https://api.gong.io/v2/calls/extensive''
           \<and> req_params r = JUndefined
           \<and> (\<forall>k \<in> set filter_keys.
                 get_property (get_property (req_data r) ''filter'') k
                   = (if truthy (get_property args k) then get_property args k else JUndefined))
           \<and> get_property (get_property (req_data r) ''contentSelector'') ''context''
               = (if truthy (get_property args ''context'') then get_property args ''context''
                  else JStr ''Extended'')"
proof -
  from request_sends[OF assms(1)] obtain r where
    r: "request c ''POST'' ''/calls/extensive'' JUndefined
             (JObj [(''filter'', callDetails_filter args),
                    (''contentSelector'',
                     JObj [(''context'', or_js (get_property args ''context'') (JStr ''Extended''))])]) w = axios r w"
     "req_method r = ''POST''" "req_url r = GONG_API_URL @ ''/calls/extensive''" "req_params r = JUndefined"
     "req_data r = JObj [(''filter'', callDetails_filter args),
                    (''contentSelector'',
                     JObj [(''context'', or_js (get_property args ''context'') (JStr ''Extended''))])]"
    by blast
  have "\<forall>k \<in> set filter_keys.
                 get_property (get_property (req_data r) ''filter'') k
                   = (if truthy (get_property args k) then get_property args k else JUndefined)"
    using filter_props[of _ args] by (simp add: r(5) filter_keys_def)
  with r retrieveCallDetails_request[OF assms(2,3,4), of c w] show ?thesis
    by (intro exI[of _ r]) (simp add: GONG_API_URL_def or_js_def)
qed


lemma get_property_delete_prop:
  "get_property (delete_prop args k) k' = (if k' = k then JUndefined else get_property args k')"
proof (cases args)
  case (JObj kvs)
  have "map_of (filter (\<lambda>kv. fst kv \<noteq> k) kvs) k' = (if k' = k then None else map_of kvs k')"
    by (induction kvs) auto
  with JObj show ?thesis by simp
qed simp_all

lemma delete_prop_nullish:
  "delete_prop args k = JUndefined \<longleftrightarrow> args = JUndefined" "delete_prop args k = JNull \<longleftrightarrow> args = JNull"
  by (cases args; simp)+

lemma callDetails_filter_delete:
  assumes "k \<in> set [''fromDateTime'', ''toDateTime'', ''cursor'', ''context'']"
    and "get_property args k = JStr []"
  shows "callDetails_filter (delete_prop args k) = callDetails_filter args"
proof -
  from assms(1) consider "k = ''fromDateTime''" | "k = ''toDateTime''" | "k = ''cursor''" | "k = ''context''"
    by auto
  then show ?thesis
    using assms(2)
    unfolding callDetails_filter_def Let_def
    by cases (simp_all add: get_property_delete_prop cong: if_cong split del: if_split)
qed

lemma retrieveCallDetails_delete_empty:
  assumes "k \<in> set [''fromDateTime'', ''toDateTime'', ''cursor'', ''context'']"
    and "get_property args k = JStr []"
  shows "retrieveCallDetails c args w = retrieveCallDetails c (delete_prop args k) w"
proof -
  from assms(2) have nn: "args \<noteq> JUndefined" "args \<noteq> JNull" by auto
  then have nn': "delete_prop args k \<noteq> JUndefined" "delete_prop args k \<noteq> JNull"
    by (simp_all add: delete_prop_nullish)
  have props: "truthy (get_property (delete_prop args k) k') = truthy (get_property args k')" for k'
    using assms(2) by (simp add: get_property_delete_prop)
  have ctx: "or_js (get_property (delete_prop args k) ''context'') (JStr ''Extended'')
               = or_js (get_property args ''context'') (JStr ''Extended'')"
    using assms(2) by (simp add: get_property_delete_prop or_js_def)
  show ?thesis
    unfolding retrieveCallDetails_unfold[OF nn] retrieveCallDetails_unfold[OF nn']
    by (simp only: props ctx callDetails_filter_delete[OF assms])
qed


lemma retrieveCallDetails_bodies:
  assumes "accessSecret c \<noteq> []" "args \<noteq> JUndefined" "args \<noteq> JNull"
    and "truthy (get_property args ''callIds'') \<or> truthy (get_property args ''fromDateTime'')
         \<or> truthy (get_property args ''toDateTime'') \<or> truthy (get_property args ''primaryUserIds'')"
  shows "map req_data (sent (snd (retrieveCallDetails c args w)))
           = map req_data (sent w)
             @ [JObj [(''filter'', callDetails_filter args),
                      (''contentSelector'',
                       JObj [(''context'', or_js (get_property args ''context'') (JStr ''Extended''))])]]"
proof -
  from request_sends[OF assms(1)] obtain r where
    "request c ''POST'' ''/calls/extensive'' JUndefined
             (JObj [(''filter'', callDetails_filter args),
                    (''contentSelector'',
                     JObj [(''context'', or_js (get_property args ''context'') (JStr ''Extended''))])]) w = axios r w"
     "req_data r = JObj [(''filter'', callDetails_filter args),
                    (''contentSelector'',
                     JObj [(''context'', or_js (get_property args ''context'') (JStr ''Extended''))])]"
    by blast
  with retrieveCallDetails_request[OF assms(2,3,4), of c w] show ?thesis
    by (simp add: axios_def)
qed

lemma handler_call_details_world:
  assumes "truthy args" and "isGongRetrieveCallDetailsArgs args = Inr True"
  shows "snd (CallToolRequest_handler c ''retrieve_call_details'' args w)
           = snd (retrieveCallDetails c args w)"
  using assms
  by (simp add: CallToolRequest_handler_def call_tool_def split: prod.splits sum.splits)

text \<open>
  Claim C4, as stated, fails in its second half: a context string supplied by the caller is
  not used when it is the empty string. The arguments
  \<^verbatim>\<open>{callIds: ["X"], context: ""}\<close> pass the type guard and go out with the context
  "Extended".
\<close>

theorem empty_context_counterexample:
  "map req_data (sent (snd (retrieveCallDetails test_client
       (JObj [(''callIds'', JArr [JStr ''X'']), (''context'', JStr [])]) test_world)))
     = [JObj [(''filter'', JObj [(''callIds'', JArr [JStr ''X''])]),
              (''contentSelector'', JObj [(''context'', JStr ''Extended'')])]]
   \<and> map req_data (sent (snd (CallToolRequest_handler test_client ''retrieve_call_details''
       (JObj [(''callIds'', JArr [JStr ''X'']), (''context'', JStr [])]) test_world)))
     = [JObj [(''filter'', JObj [(''callIds'', JArr [JStr ''X''])]),
              (''contentSelector'', JObj [(''context'', JStr ''Extended'')])]]"
proof -
  let ?A = "JObj [(''callIds'', JArr [JStr ''X'']), (''context'', JStr [])]"
  have v: "isGongRetrieveCallDetailsArgs ?A = Inr True"
    by (simp add: isGongRetrieveCallDetailsArgs_def falsy_or_string_def
        falsy_or_string_array_def member_access_def)
  have "map req_data (sent (snd (retrieveCallDetails test_client ?A test_world)))
     = [JObj [(''filter'', JObj [(''callIds'', JArr [JStr ''X''])]),
              (''contentSelector'', JObj [(''context'', JStr ''Extended'')])]]"
    using retrieveCallDetails_bodies[of test_client ?A test_world]
    by (simp add: test_client_def test_world_def callDetails_filter_def or_js_def)
  with handler_call_details_world[OF _ v, of test_client test_world] show ?thesis by simp
qed

text \<open>
  Claim C4, amended. For a client with a non-empty access secret and arguments with at least
  one truthy selector, \<^verbatim>\<open>retrieveCallDetails\<close> sends a request; when the arguments have no
  \<^verbatim>\<open>context\<close> field its body has \<^verbatim>\<open>contentSelector.context\<close> equal to "Extended", and
  when the caller supplies a non-empty context string the body carries that string.
\<close>

theorem default_context:
  assumes "accessSecret c \<noteq> []" and "args \<noteq> JUndefined" and "args \<noteq> JNull"
    and "truthy (get_property args ''callIds'') \<or> truthy (get_property args ''fromDateTime'')
         \<or> truthy (get_property args ''toDateTime'') \<or> truthy (get_property args ''primaryUserIds'')"
  shows "\<exists>r. retrieveCallDetails c args w = axios r w
           \<and> (op_in ''context'' args = Inr False \<longrightarrow>
                get_property (get_property (req_data r) ''contentSelector'') ''context''
                  = JStr ''Extended'')
           \<and> (\<forall>s. s \<noteq> [] \<and> get_property args ''context'' = JStr s \<longrightarrow>
                get_property (get_property (req_data r) ''contentSelector'') ''context''
                  = JStr s)"
proof -
  from retrieveCallDetails_sends[OF assms, of w] obtain r where
    r: "retrieveCallDetails c args w = axios r w"
      "get_property (get_property (req_data r) ''contentSelector'') ''context''
               = (if truthy (get_property args ''context'') then get_property args ''context''
                  else JStr ''Extended'')"
    by blast
  show ?thesis
    using r op_in_absent[of "''context''" args] by (intro exI[of _ r]) auto
qed

theorem default_context_witness:
  "(\<exists>r. retrieveCallDetails test_client (JObj [(''callIds'', JArr [JStr ''X''])]) test_world
          = axios r test_world
        \<and> get_property (get_property (req_data r) ''contentSelector'') ''context''
            = JStr ''Extended'')
   \<and> (\<exists>r. retrieveCallDetails test_client
            (JObj [(''callIds'', JArr [JStr ''X'']), (''context'', JStr ''Basic'')]) test_world
          = axios r test_world
        \<and> get_property (get_property (req_data r) ''contentSelector'') ''context''
            = JStr ''Basic'')"
  using default_context[of test_client "JObj [(''callIds'', JArr [JStr ''X''])]" test_world]
    default_context[of test_client
      "JObj [(''callIds'', JArr [JStr ''X'']), (''context'', JStr ''Basic'')]" test_world]
  by (simp add: test_client_def)

text \<open>
  Claim C8, as stated, fails: a field that is provided with the empty string is not copied.
  The arguments \<^verbatim>\<open>{callIds: ["a"], cursor: ""}\<close> pass the type guard and the selector
  rule, and the filter that goes out has no \<^verbatim>\<open>cursor\<close>.
\<close>

theorem empty_cursor_counterexample:
  "get_property (JObj [(''callIds'', JArr [JStr ''a'']), (''cursor'', JStr [])]) ''cursor'' = JStr []
   \<and> map req_data (sent (snd (retrieveCallDetails test_client
       (JObj [(''callIds'', JArr [JStr ''a'']), (''cursor'', JStr [])]) test_world)))
     = [JObj [(''filter'', JObj [(''callIds'', JArr [JStr ''a''])]),
              (''contentSelector'', JObj [(''context'', JStr ''Extended'')])]]
   \<and> map req_data (sent (snd (CallToolRequest_handler test_client ''retrieve_call_details''
       (JObj [(''callIds'', JArr [JStr ''a'']), (''cursor'', JStr [])]) test_world)))
     = [JObj [(''filter'', JObj [(''callIds'', JArr [JStr ''a''])]),
              (''contentSelector'', JObj [(''context'', JStr ''Extended'')])]]"
proof -
  let ?A = "JObj [(''callIds'', JArr [JStr ''a'']), (''cursor'', JStr [])]"
  have v: "isGongRetrieveCallDetailsArgs ?A = Inr True"
    by (simp add: isGongRetrieveCallDetailsArgs_def falsy_or_string_def
        falsy_or_string_array_def member_access_def)
  have "map req_data (sent (snd (retrieveCallDetails test_client ?A test_world)))
     = [JObj [(''filter'', JObj [(''callIds'', JArr [JStr ''a''])]),
              (''contentSelector'', JObj [(''context'', JStr ''Extended'')])]]"
    using retrieveCallDetails_bodies[of test_client ?A test_world]
    by (simp add: test_client_def test_world_def callDetails_filter_def or_js_def)
  with handler_call_details_world[OF _ v, of test_client test_world] show ?thesis by simp
qed

text \<open>
  Claim C8, amended. For a client with a non-empty access secret and arguments with at least
  one truthy selector, each of \<^verbatim>\<open>callIds\<close>, \<^verbatim>\<open>fromDateTime\<close>, \<^verbatim>\<open>toDateTime\<close>,
  \<^verbatim>\<open>primaryUserIds\<close> and \<^verbatim>\<open>cursor\<close> whose value in the arguments is truthy (a non-empty
  string, or an array) is the same value in the filter of the request body; so a non-empty
  cursor is transmitted as \<^verbatim>\<open>filter.cursor\<close>.
\<close>

theorem filter_copies_truthy_fields:
  assumes "accessSecret c \<noteq> []" and "args \<noteq> JUndefined" and "args \<noteq> JNull"
    and "truthy (get_property args ''callIds'') \<or> truthy (get_property args ''fromDateTime'')
         \<or> truthy (get_property args ''toDateTime'') \<or> truthy (get_property args ''primaryUserIds'')"
  shows "\<exists>r. retrieveCallDetails c args w = axios r w
           \<and> (\<forall>k \<in> set filter_keys. truthy (get_property args k) \<longrightarrow>
                 get_property (get_property (req_data r) ''filter'') k = get_property args k)"
proof -
  from retrieveCallDetails_sends[OF assms, of w] obtain r where
    r: "retrieveCallDetails c args w = axios r w"
      "\<forall>k \<in> set filter_keys.
                 get_property (get_property (req_data r) ''filter'') k
                   = (if truthy (get_property args k) then get_property args k else JUndefined)"
    by blast
  then show ?thesis by (intro exI[of _ r]) simp
qed

text \<open>The pagination scenario of the specification: a date bound and the cursor "abc".\<close>

theorem filter_copies_truthy_fields_witness:
  "\<exists>r. retrieveCallDetails test_client
          (JObj [(''fromDateTime'', JStr ''2024-03-01T00:00:00Z''), (''cursor'', JStr ''abc'')])
          test_world = axios r test_world
       \<and> get_property (get_property (req_data r) ''filter'') ''cursor'' = JStr ''abc''
       \<and> get_property (get_property (req_data r) ''filter'') ''fromDateTime''
           = JStr ''2024-03-01T00:00:00Z''"
  using filter_copies_truthy_fields[of test_client
      "JObj [(''fromDateTime'', JStr ''2024-03-01T00:00:00Z''), (''cursor'', JStr ''abc'')]"
      test_world]
  by (auto simp: test_client_def filter_keys_def)

text \<open>
  Claim C9. With \<^verbatim>\<open>callIds\<close> equal to the empty array and no other field, the selector
  rule does not fire, because an array is truthy: for a client with a non-empty access secret
  the outcome of \<^verbatim>\<open>retrieveCallDetails\<close> is that of the HTTP client on a POST request to
  \<^verbatim>\<open>/calls/extensive\<close> whose body has \<^verbatim>\<open>filter.callIds\<close> equal to the empty array.
\<close>

theorem empty_callIds_is_a_selector:
  assumes "accessSecret c \<noteq> []"
  shows "\<exists>r. retrieveCallDetails c (JObj [(''callIds'', JArr [])]) w = axios r w
           \<and> req_method r = ''POST''
           \<and> req_url r = ''https://api.gong.io/v2/calls/extensive''
           \<and> req_data r = JObj [(''filter'', JObj [(''callIds'', JArr [])]),
                                (''contentSelector'', JObj [(''context'', JStr ''Extended'')])]"
proof -
  let ?A = "JObj [(''callIds'', JArr [])]"
  have "retrieveCallDetails c ?A w =
          request c ''POST'' ''/calls/extensive'' JUndefined
            (JObj [(''filter'', JObj [(''callIds'', JArr [])]),
                   (''contentSelector'', JObj [(''context'', JStr ''Extended'')])]) w"
    using retrieveCallDetails_request[of ?A c w]
    by (simp add: callDetails_filter_def or_js_def)
  with request_sends[OF assms, of "''POST''" "''/calls/extensive''" JUndefined
      "JObj [(''filter'', JObj [(''callIds'', JArr [])]),
             (''contentSelector'', JObj [(''context'', JStr ''Extended'')])]" w]
  show ?thesis by (auto simp: GONG_API_URL_def)
qed

theorem empty_callIds_is_a_selector_witness:
  "sent (snd (retrieveCallDetails test_client (JObj [(''callIds'', JArr [])]) test_world)) \<noteq> []
   \<and> map req_data (sent (snd (retrieveCallDetails test_client (JObj [(''callIds'', JArr [])])
                                 test_world)))
       = [JObj [(''filter'', JObj [(''callIds'', JArr [])]),
                (''contentSelector'', JObj [(''context'', JStr ''Extended'')])]]
   \<and> fst (retrieveCallDetails test_client (JObj [(''callIds'', JArr [])]) test_world)
       = Inr (JObj [(''calls'', JArr [])])"
  using empty_callIds_is_a_selector[of test_client test_world]
  by (auto simp: test_client_def test_world_def axios_def)

text \<open>
  Claim C10. In \<^verbatim>\<open>retrieveCallDetails\<close> a field supplied as the empty string is treated
  as absent. For \<^verbatim>\<open>fromDateTime\<close>, \<^verbatim>\<open>toDateTime\<close>, \<^verbatim>\<open>cursor\<close> and \<^verbatim>\<open>context\<close>, deleting
  a field that holds the empty string changes neither the result nor the world. When neither
  \<^verbatim>\<open>callIds\<close> nor \<^verbatim>\<open>primaryUserIds\<close> is truthy and each of \<^verbatim>\<open>fromDateTime\<close> and
  \<^verbatim>\<open>toDateTime\<close> is the empty string or missing, the selector rule fires. When a request
  goes out, an empty-string \<^verbatim>\<open>fromDateTime\<close>, \<^verbatim>\<open>toDateTime\<close> or \<^verbatim>\<open>cursor\<close> is not in its
  filter, and an empty-string \<^verbatim>\<open>context\<close> gives \<^verbatim>\<open>contentSelector.context\<close> equal to
  "Extended".
\<close>

theorem empty_string_field_is_absent:
  assumes "accessSecret c \<noteq> []" and "args \<noteq> JUndefined" and "args \<noteq> JNull"
  shows "(\<forall>k \<in> set [''fromDateTime'', ''toDateTime'', ''cursor'', ''context''].
            get_property args k = JStr [] \<longrightarrow>
              retrieveCallDetails c args w = retrieveCallDetails c (delete_prop args k) w)
       \<and> (\<not> truthy (get_property args ''callIds'') \<and> \<not> truthy (get_property args ''primaryUserIds'')
            \<and> get_property args ''fromDateTime'' \<in> {JStr [], JUndefined}
            \<and> get_property args ''toDateTime'' \<in> {JStr [], JUndefined}
          \<longrightarrow> retrieveCallDetails c args w
                = (Inl (Error ''At least one filter parameter is required''), w))
       \<and> (truthy (get_property args ''callIds'') \<or> truthy (get_property args ''fromDateTime'')
            \<or> truthy (get_property args ''toDateTime'')
            \<or> truthy (get_property args ''primaryUserIds'')
          \<longrightarrow> (\<exists>r. retrieveCallDetails c args w = axios r w
                  \<and> (\<forall>k \<in> set [''fromDateTime'', ''toDateTime'', ''cursor''].
                        get_property args k = JStr [] \<longrightarrow>
                          op_in k (get_property (req_data r) ''filter'') = Inr False)
                  \<and> (get_property args ''context'' = JStr [] \<longrightarrow>
                        get_property (get_property (req_data r) ''contentSelector'') ''context''
                          = JStr ''Extended'')))"
proof (intro conjI)
  show "\<forall>k \<in> set [''fromDateTime'', ''toDateTime'', ''cursor'', ''context''].
            get_property args k = JStr [] \<longrightarrow>
              retrieveCallDetails c args w = retrieveCallDetails c (delete_prop args k) w"
    using retrieveCallDetails_delete_empty[of _ args c w] by blast
next
  show "\<not> truthy (get_property args ''callIds'') \<and> \<not> truthy (get_property args ''primaryUserIds'')
            \<and> get_property args ''fromDateTime'' \<in> {JStr [], JUndefined}
            \<and> get_property args ''toDateTime'' \<in> {JStr [], JUndefined}
          \<longrightarrow> retrieveCallDetails c args w
                = (Inl (Error ''At least one filter parameter is required''), w)"
    by (auto simp: retrieveCallDetails_unfold[OF assms(2,3)])
next
  show "truthy (get_property args ''callIds'') \<or> truthy (get_property args ''fromDateTime'')
            \<or> truthy (get_property args ''toDateTime'')
            \<or> truthy (get_property args ''primaryUserIds'')
          \<longrightarrow> (\<exists>r. retrieveCallDetails c args w = axios r w
                  \<and> (\<forall>k \<in> set [''fromDateTime'', ''toDateTime'', ''cursor''].
                        get_property args k = JStr [] \<longrightarrow>
                          op_in k (get_property (req_data r) ''filter'') = Inr False)
                  \<and> (get_property args ''context'' = JStr [] \<longrightarrow>
                        get_property (get_property (req_data r) ''contentSelector'') ''context''
                          = JStr ''Extended''))"
  proof
    assume sel: "truthy (get_property args ''callIds'') \<or> truthy (get_property args ''fromDateTime'')
            \<or> truthy (get_property args ''toDateTime'')
            \<or> truthy (get_property args ''primaryUserIds'')"
    from request_sends[OF assms(1)] obtain r where
      r: "request c ''POST'' ''/calls/extensive'' JUndefined
             (JObj [(''filter'', callDetails_filter args),
                    (''contentSelector'',
                     JObj [(''context'', or_js (get_property args ''context'') (JStr ''Extended''))])]) w = axios r w"
       "req_data r = JObj [(''filter'', callDetails_filter args),
                    (''contentSelector'',
                     JObj [(''context'', or_js (get_property args ''context'') (JStr ''Extended''))])]"
      by blast
    have "\<forall>k \<in> set [''fromDateTime'', ''toDateTime'', ''cursor''].
                        get_property args k = JStr [] \<longrightarrow>
                          op_in k (get_property (req_data r) ''filter'') = Inr False"
      using filter_props[of _ args] by (auto simp: r(2) filter_keys_def)
    moreover have "get_property args ''context'' = JStr [] \<longrightarrow>
                        get_property (get_property (req_data r) ''contentSelector'') ''context''
                          = JStr ''Extended''"
      by (simp add: r(2) or_js_def)
    ultimately show "\<exists>r. retrieveCallDetails c args w = axios r w
                  \<and> (\<forall>k \<in> set [''fromDateTime'', ''toDateTime'', ''cursor''].
                        get_property args k = JStr [] \<longrightarrow>
                          op_in k (get_property (req_data r) ''filter'') = Inr False)
                  \<and> (get_property args ''context'' = JStr [] \<longrightarrow>
                        get_property (get_property (req_data r) ''contentSelector'') ''context''
                          = JStr ''Extended'')"
      using r(1) retrieveCallDetails_request[OF assms(2,3) sel, of c w]
      by (intro exI[of _ r]) simp
  qed
qed

theorem empty_string_field_is_absent_witness:
  "retrieveCallDetails test_client
       (JObj [(''fromDateTime'', JStr []), (''toDateTime'', JStr []), (''cursor'', JStr ''abc'')])
       test_world
     = (Inl (Error ''At least one filter parameter is required''), test_world)
   \<and> retrieveCallDetails test_client
       (JObj [(''callIds'', JArr [JStr ''X'']), (''cursor'', JStr [])]) test_world
     = retrieveCallDetails test_client (JObj [(''callIds'', JArr [JStr ''X''])]) test_world
   \<and> (\<exists>r. retrieveCallDetails test_client
              (JObj [(''callIds'', JArr [JStr ''X'']), (''fromDateTime'', JStr []),
                     (''cursor'', JStr []), (''context'', JStr [])]) test_world
            = axios r test_world
          \<and> op_in ''fromDateTime'' (get_property (req_data r) ''filter'') = Inr False
          \<and> op_in ''cursor'' (get_property (req_data r) ''filter'') = Inr False
          \<and> get_property (get_property (req_data r) ''contentSelector'') ''context''
              = JStr ''Extended'')"
proof -
  have s: "accessSecret test_client \<noteq> []" by (simp add: test_client_def)
  let ?A1 = "JObj [(''fromDateTime'', JStr []), (''toDateTime'', JStr []), (''cursor'', JStr ''abc'')]"
  let ?A2 = "JObj [(''callIds'', JArr [JStr ''X'']), (''cursor'', JStr [])]"
  let ?A3 = "JObj [(''callIds'', JArr [JStr ''X'']), (''fromDateTime'', JStr []),
                   (''cursor'', JStr []), (''context'', JStr [])]"
  from empty_string_field_is_absent[OF s, of ?A1 test_world, THEN conjunct2, THEN conjunct1]
  have 1: "retrieveCallDetails test_client ?A1 test_world
             = (Inl (Error ''At least one filter parameter is required''), test_world)"
    by simp
  from empty_string_field_is_absent[OF s, of ?A2 test_world, THEN conjunct1]
  have "retrieveCallDetails test_client ?A2 test_world
          = retrieveCallDetails test_client (delete_prop ?A2 ''cursor'') test_world"
    by simp
  then have 2: "retrieveCallDetails test_client ?A2 test_world
          = retrieveCallDetails test_client (JObj [(''callIds'', JArr [JStr ''X''])]) test_world"
    by simp
  from empty_string_field_is_absent[OF s, of ?A3 test_world, THEN conjunct2, THEN conjunct2]
  have 3: "\<exists>r. retrieveCallDetails test_client ?A3 test_world = axios r test_world
          \<and> op_in ''fromDateTime'' (get_property (req_data r) ''filter'') = Inr False
          \<and> op_in ''cursor'' (get_property (req_data r) ''filter'') = Inr False
          \<and> get_property (get_property (req_data r) ''contentSelector'') ''context''
              = JStr ''Extended''"
    by auto
  from 1 2 3 show ?thesis by blast
qed

end
